theory Spec2Isabelle
  imports Complex_Main "HOL-Library.Multiset"
begin

section \<open>Shared JavaScript notions\<close>

text \<open>
  The development follows the pool cache, the fee totals and the batched claim flow of
  \<^verbatim>\<open>scaffolds/fun-launch\<close>. A thrown JavaScript value is either an \<^verbatim>\<open>Error\<close>
  carrying a message or some other value; every handler reads it with
  \<^verbatim>\<open>error instanceof Error ? error.message : 'Unknown error'\<close>. Console output is
  not part of the model.
\<close>

datatype exn = Error string | NonError

definition errorMessage :: "exn \<Rightarrow> string" where
  "errorMessage e = (case e of Error m \<Rightarrow> m | NonError \<Rightarrow> ''Unknown error'')"

text \<open>
  \<^verbatim>\<open>!s\<close> for a value that is a string or \<^verbatim>\<open>undefined\<close>: true when it is
  absent or the empty string. \<^verbatim>\<open>a || b\<close> on such a value picks \<open>b\<close> exactly then.
\<close>

definition falsy :: "string option \<Rightarrow> bool" where
  "falsy s = (case s of None \<Rightarrow> True | Some v \<Rightarrow> v = [])"

definition orElse :: "string option \<Rightarrow> string \<Rightarrow> string" where
  "orElse a b = (case a of None \<Rightarrow> b | Some v \<Rightarrow> if v = [] then b else v)"

text \<open>The value of a setting or field once it has passed the \<^verbatim>\<open>!s\<close> check.\<close>

definition configured :: "string option \<Rightarrow> string" where
  "configured s = (case s of None \<Rightarrow> [] | Some v \<Rightarrow> v)"

text \<open>
  JSON values as the API routes send them, and an HTTP response. \<open>JNum\<close> carries the
  integral numbers; \<open>JQuotient a b\<close> stands for the double \<^verbatim>\<open>a / b\<close>, whose
  floating-point value is not computed here.
\<close>

datatype json =
    JNull
  | JBool bool
  | JNum int
  | JQuotient int int
  | JStr string
  | JArr "json list"
  | JObj "(string \<times> json) list"

record response =
  status :: nat
  headers :: "(string \<times> string) list"
  body :: json

definition respond :: "nat \<Rightarrow> json \<Rightarrow> response" where
  "respond code payload = \<lparr>status = code, headers = [], body = payload\<rparr>"

section \<open>Arbitrary-precision amounts (bn.js)\<close>

text \<open>
  Modelled from the spec: bn.js is a dependency whose source is not part of the
  repository. Amounts cross every boundary as decimal strings of arbitrary-precision
  integers; \<open>BN\<close> reads an optionally signed decimal numeral (\<^verbatim>\<open>new BN(s)\<close>),
  \<open>BN_toString\<close> prints one (\<^verbatim>\<open>.toString()\<close>), \<^verbatim>\<open>add\<close> is \<open>+\<close> and \<^verbatim>\<open>gte\<close> is
  \<open>\<ge>\<close> on \<open>int\<close>.
\<close>

definition digitValue :: "char \<Rightarrow> int" where
  "digitValue c = int (of_char c) - 48"

definition isDecimal :: "string \<Rightarrow> bool" where
  "isDecimal s = (s \<noteq> [] \<and> list_all (\<lambda>c. 48 \<le> (of_char c :: nat) \<and> (of_char c :: nat) \<le> 57) s)"

definition parseBase :: "string \<Rightarrow> int" where
  "parseBase s = foldl (\<lambda>r c. r * 10 + digitValue c) 0 s"

definition BN :: "string \<Rightarrow> int" where
  "BN s = (if s \<noteq> [] \<and> hd s = CHR ''-'' then - parseBase (tl s) else parseBase s)"

fun digitsOf :: "nat \<Rightarrow> string" where
  "digitsOf n =
     (if n < 10 then [''0123456789'' ! n]
      else digitsOf (n div 10) @ [''0123456789'' ! (n mod 10)])"

definition BN_toString :: "int \<Rightarrow> string" where
  "BN_toString i = (if i < 0 then CHR ''-'' # digitsOf (nat (- i)) else digitsOf (nat i))"

section \<open>Fee metrics and their totals (admin.tsx)\<close>

record FeeMetrics =
  poolAddress :: string
  partnerBaseFee :: string
  partnerQuoteFee :: string
  creatorBaseFee :: string
  creatorQuoteFee :: string
  totalTradingBaseFee :: string
  totalTradingQuoteFee :: string

text \<open>
  \<^verbatim>\<open>fees.reduce((sum, f) => sum.add(new BN(f.partnerQuoteFee)), new BN(0))\<close> and its
  three siblings: a left fold from zero.
\<close>

definition totalPartnerQuoteFee :: "FeeMetrics list \<Rightarrow> int" where
  "totalPartnerQuoteFee fees = foldl (\<lambda>sum f. sum + BN (partnerQuoteFee f)) 0 fees"

definition totalPartnerBaseFee :: "FeeMetrics list \<Rightarrow> int" where
  "totalPartnerBaseFee fees = foldl (\<lambda>sum f. sum + BN (partnerBaseFee f)) 0 fees"

definition totalCreatorQuoteFee :: "FeeMetrics list \<Rightarrow> int" where
  "totalCreatorQuoteFee fees = foldl (\<lambda>sum f. sum + BN (creatorQuoteFee f)) 0 fees"

definition totalCreatorBaseFee :: "FeeMetrics list \<Rightarrow> int" where
  "totalCreatorBaseFee fees = foldl (\<lambda>sum f. sum + BN (creatorBaseFee f)) 0 fees"

text \<open>Two fee records used as concrete inputs below.\<close>

definition feesOf :: "string \<Rightarrow> string \<Rightarrow> FeeMetrics" where
  "feesOf pool quote =
     \<lparr>poolAddress = pool, partnerBaseFee = ''0'', partnerQuoteFee = quote,
      creatorBaseFee = ''0'', creatorQuoteFee = ''0'',
      totalTradingBaseFee = ''0'', totalTradingQuoteFee = ''0''\<rparr>"

section \<open>The batched claim flow (claimAllFees in admin.tsx)\<close>

text \<open>
  The collaborators of the page: the two API routes it posts to, the wallet's signing
  function and the refresh of the fee list. Each network or wallet call takes the state
  of the outside world \<open>'w\<close> and returns what it resolved to, or the value it threw,
  together with the world it leaves behind; so the outcome of a later call may depend
  on every earlier one. Every call settles: a request that never resolves is outside the
  model. \<open>'tx\<close> is the type of a transaction object.
\<close>

record claim_request =
  req_poolAddress :: string
  req_payerAddress :: string
  req_maxBaseAmount :: string
  req_maxQuoteAmount :: string

text \<open>
  What \<^verbatim>\<open>fetch('/api/admin/claim-fees', ...)\<close> resolved to: the \<^verbatim>\<open>ok\<close> flag, and
  the transaction decoded from the body by \<^verbatim>\<open>response.json()\<close>, \<^verbatim>\<open>Buffer.from\<close> and
  \<^verbatim>\<open>Transaction.from\<close>, any of which may throw.
\<close>

record 'tx claim_reply =
  reply_ok :: bool
  reply_transaction :: "exn + 'tx"

record ('w, 'tx) collaborators =
  fetchClaimFees :: "claim_request \<Rightarrow> 'w \<Rightarrow> (exn + 'tx claim_reply) \<times> 'w"
  signTransaction :: "'tx \<Rightarrow> 'w \<Rightarrow> (exn + 'tx) \<times> 'w"
  serialize :: "'tx \<Rightarrow> exn + string"
  fetchSendTransaction :: "string \<Rightarrow> 'w \<Rightarrow> (exn + bool) \<times> 'w"
  fetchFees :: "'w \<Rightarrow> 'w"

text \<open>The calls the page makes, in the order it makes them.\<close>

datatype 'tx call =
    DraftCall claim_request
  | SignCall 'tx
  | SubmitCall string
  | RefreshCall

text \<open>
  The notifications of the batch itself; those of the refresh that follows it belong to
  the world. The threshold printed inside two of them is a floating-point number and is
  left out.
  \<^item> \<open>ConnectWalletError\<close>: \<^verbatim>\<open>toast.error('Please connect your wallet')\<close>
  \<^item> \<open>NoFeesInfo\<close>: \<^verbatim>\<open>toast.info(`No fees to claim (minimum ... SOL threshold)`)\<close>
  \<^item> \<open>ClaimingInfo n\<close>: \<^verbatim>\<open>toast.info(`Claiming fees from ${n} pool(s) ...`)\<close>
  \<^item> \<open>ClaimedPoolSuccess a\<close>: \<^verbatim>\<open>toast.success(`Claimed fees from pool ${a}...`)\<close>
  \<^item> \<open>ClaimedSummarySuccess n\<close>: \<^verbatim>\<open>toast.success(`Successfully claimed fees from ${n} pool(s)`)\<close>
  \<^item> \<open>FailedSummaryError n\<close>: \<^verbatim>\<open>toast.error(`Failed to claim fees from ${n} pool(s)`)\<close>
\<close>

datatype toast =
    ConnectWalletError
  | NoFeesInfo
  | ClaimingInfo nat
  | ClaimedPoolSuccess string
  | ClaimedSummarySuccess int
  | FailedSummaryError int

record wallet =
  publicKey :: "string option"
  canSign :: bool

text \<open>
  The two counters of the loop, with the notifications shown and the calls made so far.
\<close>

record 'tx batch =
  successCount :: int
  failCount :: int
  toasts :: "toast list"
  calls :: "'tx call list"

definition claimRequest :: "string \<Rightarrow> FeeMetrics \<Rightarrow> claim_request" where
  "claimRequest payer feeMetric =
     \<lparr>req_poolAddress = poolAddress feeMetric, req_payerAddress = payer,
      req_maxBaseAmount = partnerBaseFee feeMetric,
      req_maxQuoteAmount = partnerQuoteFee feeMetric\<rparr>"

text \<open>
  The body of the \<^verbatim>\<open>try\<close> block of one iteration: request the transaction, sign it,
  send it. \<open>Inl\<close> is the value the block threw, \<open>Inr ()\<close> is reaching its end.
\<close>

definition claimAttempt ::
  "('w, 'tx) collaborators \<Rightarrow> string \<Rightarrow> FeeMetrics \<Rightarrow> 'w \<Rightarrow> (exn + unit) \<times> 'tx call list \<times> 'w"
where
  "claimAttempt E payer feeMetric w =
     (let rq = claimRequest payer feeMetric in
      case fetchClaimFees E rq w of
        (Inl e, w1) \<Rightarrow> (Inl e, [DraftCall rq], w1)
      | (Inr response, w1) \<Rightarrow>
          if \<not> reply_ok response
          then (Inl (Error ''Failed to create claim transaction''), [DraftCall rq], w1)
          else
            (case reply_transaction response of
               Inl e \<Rightarrow> (Inl e, [DraftCall rq], w1)
             | Inr transaction \<Rightarrow>
                 (case signTransaction E transaction w1 of
                    (Inl e, w2) \<Rightarrow> (Inl e, [DraftCall rq, SignCall transaction], w2)
                  | (Inr signedTx, w2) \<Rightarrow>
                      (case serialize E signedTx of
                         Inl e \<Rightarrow> (Inl e, [DraftCall rq, SignCall transaction], w2)
                       | Inr payload \<Rightarrow>
                           (case fetchSendTransaction E payload w2 of
                              (Inl e, w3) \<Rightarrow>
                                (Inl e,
                                 [DraftCall rq, SignCall transaction, SubmitCall payload], w3)
                            | (Inr sendOk, w3) \<Rightarrow>
                                if \<not> sendOk
                                then (Inl (Error ''Failed to send transaction''),
                                      [DraftCall rq, SignCall transaction, SubmitCall payload], w3)
                                else (Inr (),
                                      [DraftCall rq, SignCall transaction, SubmitCall payload],
                                      w3))))))"

text \<open>
  \<^verbatim>\<open>for (const feeMetric of poolsWithFees) { try { ...; successCount++; toast.success(...) }
  catch (error) { ...; failCount++ } }\<close>
\<close>

fun claimLoop ::
  "('w, 'tx) collaborators \<Rightarrow> string \<Rightarrow> FeeMetrics list \<Rightarrow> 'tx batch \<Rightarrow> 'w \<Rightarrow> 'tx batch \<times> 'w"
where
  "claimLoop E payer [] b w = (b, w)"
| "claimLoop E payer (feeMetric # rest) b w =
     (case claimAttempt E payer feeMetric w of
        (Inr u, cs, w') \<Rightarrow>
          claimLoop E payer rest
            (b\<lparr>successCount := successCount b + 1,
               toasts := toasts b @ [ClaimedPoolSuccess (take 8 (poolAddress feeMetric))],
               calls := calls b @ cs\<rparr>) w'
      | (Inl e, cs, w') \<Rightarrow>
          claimLoop E payer rest
            (b\<lparr>failCount := failCount b + 1, calls := calls b @ cs\<rparr>) w')"

text \<open>
  \<^verbatim>\<open>fees.filter(f => new BN(f.partnerQuoteFee).gte(MIN_SOL_THRESHOLD))\<close>. The threshold
  is the integer that \<^verbatim>\<open>new BN(Math.floor(minSolThreshold * 1e9))\<close> holds, in lamports;
  the floating-point product that yields it is not modelled.
\<close>

definition poolsWithFees :: "int \<Rightarrow> FeeMetrics list \<Rightarrow> FeeMetrics list" where
  "poolsWithFees MIN_SOL_THRESHOLD fees =
     filter (\<lambda>f. MIN_SOL_THRESHOLD \<le> BN (partnerQuoteFee f)) fees"

definition summaryToasts :: "'tx batch \<Rightarrow> toast list" where
  "summaryToasts b =
     (if successCount b > 0 then [ClaimedSummarySuccess (successCount b)] else [])
     @ (if failCount b > 0 then [FailedSummaryError (failCount b)] else [])"

definition claimAllFees ::
  "('w, 'tx) collaborators \<Rightarrow> wallet \<Rightarrow> int \<Rightarrow> FeeMetrics list \<Rightarrow> 'w \<Rightarrow> 'tx batch \<times> 'w"
where
  "claimAllFees E wal MIN_SOL_THRESHOLD fees w =
     (case publicKey wal of
        None \<Rightarrow>
          (\<lparr>successCount = 0, failCount = 0, toasts = [ConnectWalletError], calls = []\<rparr>, w)
      | Some payer \<Rightarrow>
          if \<not> canSign wal
          then (\<lparr>successCount = 0, failCount = 0, toasts = [ConnectWalletError], calls = []\<rparr>, w)
          else if length (poolsWithFees MIN_SOL_THRESHOLD fees) = 0
          then (\<lparr>successCount = 0, failCount = 0, toasts = [NoFeesInfo], calls = []\<rparr>, w)
          else
            (case claimLoop E payer (poolsWithFees MIN_SOL_THRESHOLD fees)
                    \<lparr>successCount = 0, failCount = 0,
                     toasts = [ClaimingInfo (length (poolsWithFees MIN_SOL_THRESHOLD fees))],
                     calls = []\<rparr> w of
               (b, w') \<Rightarrow>
                 (b\<lparr>toasts := toasts b @ summaryToasts b, calls := calls b @ [RefreshCall]\<rparr>,
                  fetchFees E w')))"

text \<open>
  Observations on a run, used to state its properties: the results of the iterations'
  \<^verbatim>\<open>try\<close> blocks, each run in the world its predecessors left behind (\<open>Inl\<close> is a
  failed claim); the requests for a transaction among the calls; which calls are wallet
  signatures or submissions; and the pools named by the per-pool success notifications.
\<close>

fun pipelineOutcomes ::
  "('w, 'tx) collaborators \<Rightarrow> string \<Rightarrow> FeeMetrics list \<Rightarrow> 'w \<Rightarrow> (exn + unit) list"
where
  "pipelineOutcomes E payer [] w = []"
| "pipelineOutcomes E payer (feeMetric # rest) w =
     (case claimAttempt E payer feeMetric w of
        (r, cs, w') \<Rightarrow> r # pipelineOutcomes E payer rest w')"

fun draftRequests :: "'tx call list \<Rightarrow> claim_request list" where
  "draftRequests [] = []"
| "draftRequests (DraftCall rq # cs) = rq # draftRequests cs"
| "draftRequests (c # cs) = draftRequests cs"

fun isSignOrSubmit :: "'tx call \<Rightarrow> bool" where
  "isSignOrSubmit (SignCall t) = True"
| "isSignOrSubmit (SubmitCall p) = True"
| "isSignOrSubmit c = False"

fun isSubmit :: "'tx call \<Rightarrow> bool" where
  "isSubmit (SubmitCall p) = True"
| "isSubmit c = False"

fun claimedPools :: "toast list \<Rightarrow> string list" where
  "claimedPools [] = []"
| "claimedPools (ClaimedPoolSuccess a # ts) = a # claimedPools ts"
| "claimedPools (t # ts) = claimedPools ts"

fun isSummary :: "toast \<Rightarrow> bool" where
  "isSummary (ClaimedSummarySuccess n) = True"
| "isSummary (FailedSummaryError n) = True"
| "isSummary t = False"

text \<open>
  A world for concrete runs: every route answers, the wallet signs, and sending fails
  for the one transaction of pool \<^verbatim>\<open>B\<close>.
\<close>

definition demoCollaborators :: "(unit, string) collaborators" where
  "demoCollaborators =
     \<lparr>fetchClaimFees = (\<lambda>rq w.
        (Inr \<lparr>reply_ok = True, reply_transaction = Inr (req_poolAddress rq)\<rparr>, w)),
      signTransaction = (\<lambda>tx w. (Inr tx, w)),
      serialize = (\<lambda>tx. Inr tx),
      fetchSendTransaction = (\<lambda>payload w. (Inr (payload \<noteq> ''B''), w)),
      fetchFees = (\<lambda>w. w)\<rparr>"

definition demoWallet :: wallet where
  "demoWallet = \<lparr>publicKey = Some ''admin'', canSign = True\<rparr>"

text \<open>Fee lists for concrete runs; the second is the scenario of two pools with 0.05 and 0.2 SOL.\<close>

definition demoFees :: "FeeMetrics list" where
  "demoFees = [feesOf ''A'' ''5'', feesOf ''B'' ''7'', feesOf ''C'' ''9'']"

definition scenarioFees :: "FeeMetrics list" where
  "scenarioFees = [feesOf ''A'' ''50000000'', feesOf ''B'' ''200000000'']"

section \<open>The server-side pool cache (pages/api/pools/get-all.ts)\<close>

definition CACHE_DURATION_MS :: int where
  "CACHE_DURATION_MS = 60 * 1000"

text \<open>The module-level \<^verbatim>\<open>cachedData\<close>: \<open>None\<close> is \<^verbatim>\<open>null\<close>.\<close>

record pools_cache =
  cached_pools :: "json list"
  cached_timestamp :: int

text \<open>
  A pool as the SDK returns it, its keys already in base58 and its reserves as integers;
  the fields of a DAS asset that the handler reads (\<open>None\<close> where an optional chain ends in
  \<^verbatim>\<open>undefined\<close>); and the parsed body of a \<^verbatim>\<open>getAsset\<close> reply.
\<close>

record pool_account =
  acc_address :: string
  acc_config :: string
  acc_baseMint :: string
  acc_creator :: string
  acc_baseReserve :: int
  acc_quoteReserve :: int

record asset =
  asset_name :: "string option"
  asset_symbol :: "string option"
  asset_external_url :: "string option"
  asset_file_uri :: "string option"
  asset_image :: "string option"

record das_reply =
  das_result :: "asset option"
  das_error :: bool

datatype remote_call = GetPoolsByConfig string | GetAsset string

text \<open>
  The environment of the route: the two settings, and the remote data source.
  \<open>getPoolsByConfig url key\<close> stands for building the connection, the client and the
  key and then querying the pools; \<open>Inl\<close> is a throw of any of these. \<open>getAsset url mint\<close>
  is the \<^verbatim>\<open>fetch\<close> of one asset with \<^verbatim>\<open>response.json()\<close>.
\<close>

record pools_env =
  RPC_URL :: "string option"
  POOL_CONFIG_KEY :: "string option"
  getPoolsByConfig :: "string \<Rightarrow> string \<Rightarrow> exn + pool_account list"
  getAsset :: "string \<Rightarrow> string \<Rightarrow> exn + das_reply"

definition metadataJson :: "asset \<Rightarrow> json" where
  "metadataJson a =
     JObj [(''name'', JStr (orElse (asset_name a) ''Unknown Token'')),
           (''symbol'', JStr (orElse (asset_symbol a) [])),
           (''website'', JStr (orElse (asset_external_url a) [])),
           (''logo'', JStr (orElse (asset_file_uri a) (orElse (asset_image a) [])))]"

definition poolJson :: "pool_account \<Rightarrow> json \<Rightarrow> json" where
  "poolJson pool metadata =
     JObj [(''address'', JStr (acc_address pool)),
           (''config'', JStr (acc_config pool)),
           (''baseMint'', JStr (acc_baseMint pool)),
           (''creator'', JStr (acc_creator pool)),
           (''baseReserve'', JStr (BN_toString (acc_baseReserve pool))),
           (''quoteReserve'', JStr (BN_toString (acc_quoteReserve pool))),
           (''metadata'', metadata)]"

text \<open>
  The callback of \<^verbatim>\<open>pools.map\<close>: a failed metadata lookup is caught there and the pool
  is returned with \<^verbatim>\<open>metadata: null\<close>.
\<close>

definition withMetadata :: "pools_env \<Rightarrow> string \<Rightarrow> pool_account \<Rightarrow> json" where
  "withMetadata E url pool =
     (case getAsset E url (acc_baseMint pool) of
        Inl e \<Rightarrow> poolJson pool JNull
      | Inr data \<Rightarrow>
          (case das_result data of
             None \<Rightarrow> poolJson pool JNull
           | Some a \<Rightarrow>
               if \<not> das_error data then poolJson pool (metadataJson a)
               else poolJson pool JNull))"

definition cacheHeaders :: "(string \<times> string) list" where
  "cacheHeaders = [(''Cache-Control'', ''public, s-maxage=60, stale-while-revalidate=120'')]"

text \<open>\<^verbatim>\<open>cachedData && (now - cachedData.timestamp) < CACHE_DURATION_MS\<close>\<close>

definition cacheIsFresh :: "int \<Rightarrow> pools_cache option \<Rightarrow> bool" where
  "cacheIsFresh now cachedData =
     (case cachedData of
        None \<Rightarrow> False
      | Some c \<Rightarrow> now - cached_timestamp c < CACHE_DURATION_MS)"

definition configurationError :: response where
  "configurationError =
     respond 500
       (JObj [(''error'', JStr ''Server configuration error''),
              (''details'', JStr ''Missing required environment variables'')])"

text \<open>
  The handler, given the request method, the two readings of \<^verbatim>\<open>Date.now()\<close> (on
  entry, and when the cache is written) and the cache. It returns the response, the cache
  it leaves and the remote calls it made.
\<close>

definition get_all_handler ::
  "pools_env \<Rightarrow> string \<Rightarrow> int \<Rightarrow> int \<Rightarrow> pools_cache option
     \<Rightarrow> response \<times> pools_cache option \<times> remote_call list"
where
  "get_all_handler E req_method now writeTime cachedData =
     (if req_method \<noteq> ''GET''
      then (respond 405 (JObj [(''error'', JStr ''Method not allowed'')]), cachedData, [])
      else
        (case (if cacheIsFresh now cachedData then cachedData else None) of
           Some c \<Rightarrow>
             (\<lparr>status = 200, headers = cacheHeaders,
               body = JObj [(''pools'', JArr (cached_pools c)),
                            (''count'', JNum (int (length (cached_pools c)))),
                            (''cached'', JBool True),
                            (''cacheAge'', JNum ((now - cached_timestamp c) div 1000))]\<rparr>,
              cachedData, [])
         | None \<Rightarrow>
             if falsy (RPC_URL E) \<or> falsy (POOL_CONFIG_KEY E)
             then (configurationError, cachedData, [])
             else
               (case getPoolsByConfig E (configured (RPC_URL E)) (configured (POOL_CONFIG_KEY E)) of
                  Inl e \<Rightarrow>
                    (respond 500
                       (JObj [(''error'', JStr ''Failed to fetch pools''),
                              (''details'', JStr (errorMessage e))]),
                     cachedData, [GetPoolsByConfig (configured (POOL_CONFIG_KEY E))])
                | Inr pools \<Rightarrow>
                    (\<lparr>status = 200, headers = cacheHeaders,
                      body = JObj [(''pools'', JArr (map (withMetadata E (configured (RPC_URL E))) pools)),
                                   (''count'', JNum (int (length pools))),
                                   (''cached'', JBool False)]\<rparr>,
                     Some \<lparr>cached_pools = map (withMetadata E (configured (RPC_URL E))) pools,
                           cached_timestamp = writeTime\<rparr>,
                     GetPoolsByConfig (configured (POOL_CONFIG_KEY E))
                       # map (\<lambda>pool. GetAsset (acc_baseMint pool)) pools))))"

section \<open>The client-side persisted cache (contexts/PoolsCacheProvider.tsx)\<close>

definition CACHE_KEY :: string where
  "CACHE_KEY = ''trenchfun_pools_cache''"

text \<open>
  The value kept under \<open>CACHE_KEY\<close>, as \<open>fetchPools\<close> writes it; the fields the provider
  reads from the body of a reply of \<^verbatim>\<open>/api/pools/get-all\<close>; and what the \<^verbatim>\<open>fetch\<close>
  resolved to, with \<^verbatim>\<open>response.json()\<close> possibly throwing.
\<close>

record stored_entry =
  entry_pools :: "json list"
  entry_timestamp :: int

record reply_data =
  data_error :: "string option"
  data_pools :: "json list"

record get_all_reply =
  ga_ok :: bool
  ga_json :: "exn + reply_data"

text \<open>
  \<open>JSON_parse\<close> reads a stored string back as an entry, \<open>Inl\<close> being the exception
  thrown while parsing or destructuring; stored strings that parse to a value of another
  shape are not modelled. \<open>setItemThrows\<close> tells whether the browser refuses the write.
  \<open>fetchGetAll\<close> is the outcome of the one request \<open>fetchPools\<close> makes.
\<close>

record client_env =
  JSON_parse :: "string \<Rightarrow> exn + stored_entry"
  JSON_stringify :: "stored_entry \<Rightarrow> string"
  setItemThrows :: bool
  fetchGetAll :: "exn + get_all_reply"

record client_state =
  pools :: "json list"
  loading :: bool
  error :: "string option"
  lastFetch :: "int option"

datatype client_call = FetchGetAll

definition initialState :: client_state where
  "initialState = \<lparr>pools = [], loading = False, error = None, lastFetch = None\<rparr>"

text \<open>
  The body of the \<^verbatim>\<open>try\<close> block of the effect that runs on mount: \<open>Inl\<close> is the value
  it threw. \<^verbatim>\<open>if (cached)\<close> skips both a missing slot and an empty string.
\<close>

definition loadCacheTry ::
  "client_env \<Rightarrow> int \<Rightarrow> (string \<rightharpoonup> string) \<Rightarrow> client_state \<Rightarrow> exn + client_state"
where
  "loadCacheTry E now localStorage st =
     (case localStorage CACHE_KEY of
        None \<Rightarrow> Inr st
      | Some cached \<Rightarrow>
          if cached = [] then Inr st
          else
            (case JSON_parse E cached of
               Inl e \<Rightarrow> Inl e
             | Inr entry \<Rightarrow>
                 if now - entry_timestamp entry < CACHE_DURATION_MS
                 then Inr (st\<lparr>pools := entry_pools entry,
                              lastFetch := Some (entry_timestamp entry)\<rparr>)
                 else Inr st))"

text \<open>The effect itself: the \<^verbatim>\<open>catch\<close> only writes to the console.\<close>

definition loadCacheOnMount ::
  "client_env \<Rightarrow> int \<Rightarrow> (string \<rightharpoonup> string) \<Rightarrow> client_state \<Rightarrow> client_state"
where
  "loadCacheOnMount E now localStorage st =
     (case loadCacheTry E now localStorage st of
        Inl e \<Rightarrow> st
      | Inr st' \<Rightarrow> st')"

text \<open>
  \<^verbatim>\<open>!forceRefresh && lastFetch && (now - lastFetch) < CACHE_DURATION_MS\<close>: a number is
  truthy when it is not \<^verbatim>\<open>null\<close> and not zero.
\<close>

definition skipFetch :: "bool \<Rightarrow> int \<Rightarrow> int option \<Rightarrow> bool" where
  "skipFetch forceRefresh now lf =
     (\<not> forceRefresh \<and>
      (case lf of None \<Rightarrow> False | Some t \<Rightarrow> t \<noteq> 0 \<and> now - t < CACHE_DURATION_MS))"

text \<open>The \<^verbatim>\<open>catch\<close> and \<^verbatim>\<open>finally\<close> of \<open>fetchPools\<close>, after the request was made.\<close>

definition fetchFailed ::
  "client_state \<Rightarrow> (string \<rightharpoonup> string) \<Rightarrow> string
     \<Rightarrow> client_state \<times> (string \<rightharpoonup> string) \<times> client_call list"
where
  "fetchFailed st localStorage msg =
     (st\<lparr>loading := False, error := Some msg\<rparr>, localStorage, [FetchGetAll])"

text \<open>
  \<open>fetchPools\<close>, given the two readings of \<^verbatim>\<open>Date.now()\<close> (on entry, and after the
  reply), the provider's state and the browser's storage. It returns the new state, the
  new storage and the requests made.
\<close>

definition fetchPools ::
  "client_env \<Rightarrow> bool \<Rightarrow> int \<Rightarrow> int \<Rightarrow> client_state \<Rightarrow> (string \<rightharpoonup> string)
     \<Rightarrow> client_state \<times> (string \<rightharpoonup> string) \<times> client_call list"
where
  "fetchPools E forceRefresh now fetchTime st localStorage =
     (if skipFetch forceRefresh now (lastFetch st) then (st, localStorage, [])
      else
        (case fetchGetAll E of
           Inl e \<Rightarrow> fetchFailed st localStorage (errorMessage e)
         | Inr response \<Rightarrow>
             (case ga_json response of
                Inl e \<Rightarrow> fetchFailed st localStorage (errorMessage e)
              | Inr data \<Rightarrow>
                  if \<not> ga_ok response
                  then fetchFailed st localStorage
                         (orElse (data_error data) ''Failed to fetch pools'')
                  else
                    (st\<lparr>pools := data_pools data, loading := False, error := None,
                        lastFetch := Some fetchTime\<rparr>,
                     if setItemThrows E then localStorage
                     else localStorage(CACHE_KEY \<mapsto>
                            JSON_stringify E \<lparr>entry_pools = data_pools data,
                                              entry_timestamp = fetchTime\<rparr>),
                     [FetchGetAll]))))"

section \<open>The admin claim route (admin claim-fees handler)\<close>

text \<open>
  The handler that builds the partner claim transaction for the admin; in the sources it
  stands in \<^verbatim>\<open>pages/api/creator/get-fees.ts\<close>, after the creator fee route and the
  admin address route.
\<close>

text \<open>
  The JSON body of the request; \<open>None\<close> for a field is \<^verbatim>\<open>undefined\<close>, and \<open>None\<close> for
  the whole body is a body that cannot be destructured.
\<close>

record claim_fees_body =
  cf_poolAddress :: "string option"
  cf_payerAddress :: "string option"
  cf_maxBaseAmount :: "string option"
  cf_maxQuoteAmount :: "string option"

record claim_params =
  cp_pool :: string
  cp_feeClaimer :: string
  cp_payer :: string
  cp_maxBaseAmount :: int
  cp_maxQuoteAmount :: int

datatype sdk_call = ClaimPartnerTradingFee claim_params | GetLatestBlockhash

text \<open>
  The environment of the route: its two settings; the constructors of a connection and
  of a public key, which throw on a malformed argument (\<open>Some e\<close> is the value thrown);
  the SDK call that builds the claim transaction; the blockhash query; and the
  serialisation of the transaction once blockhash and fee payer are set.
\<close>

record 'tx claim_fees_env =
  cf_RPC_URL :: "string option"
  ADMIN_ADDRESS :: "string option"
  newConnection :: "string \<Rightarrow> exn option"
  newPublicKey :: "string \<Rightarrow> exn option"
  claimPartnerTradingFee :: "claim_params \<Rightarrow> exn + 'tx"
  getLatestBlockhash :: "exn + string"
  serializeTransaction :: "'tx \<Rightarrow> string \<Rightarrow> string \<Rightarrow> exn + string"

text \<open>
  The \<^verbatim>\<open>try\<close> block of the handler: \<open>Inl\<close> is the value it threw, \<open>Inr\<close> the response
  it returned; with it come the SDK calls made. The admin check stands after the three
  public keys are built.
\<close>

definition claimFeesTry ::
  "'tx claim_fees_env \<Rightarrow> claim_fees_body option \<Rightarrow> (exn + response) \<times> sdk_call list"
where
  "claimFeesTry E req_body =
     (case req_body of
        None \<Rightarrow> (Inl (Error ''Cannot destructure the request body''), [])
      | Some b \<Rightarrow>
          if falsy (cf_poolAddress b) \<or> falsy (cf_payerAddress b)
             \<or> cf_maxBaseAmount b = None \<or> cf_maxQuoteAmount b = None
          then (Inr (respond 400 (JObj [(''error'', JStr ''Missing required fields'')])), [])
          else
            (case newConnection E (configured (cf_RPC_URL E)) of
               Some e \<Rightarrow> (Inl e, [])
             | None \<Rightarrow>
            (case newPublicKey E (configured (cf_poolAddress b)) of
               Some e \<Rightarrow> (Inl e, [])
             | None \<Rightarrow>
            (case newPublicKey E (configured (ADMIN_ADDRESS E)) of
               Some e \<Rightarrow> (Inl e, [])
             | None \<Rightarrow>
            (case newPublicKey E (configured (cf_payerAddress b)) of
               Some e \<Rightarrow> (Inl e, [])
             | None \<Rightarrow>
                 if configured (ADMIN_ADDRESS E) \<noteq> configured (cf_payerAddress b)
                 then (Inr (respond 403
                         (JObj [(''error'', JStr ''Unauthorized: Only admin can claim fees'')])),
                       [])
                 else
                   (let params =
                      \<lparr>cp_pool = configured (cf_poolAddress b),
                       cp_feeClaimer = configured (ADMIN_ADDRESS E),
                       cp_payer = configured (cf_payerAddress b),
                       cp_maxBaseAmount = BN (configured (cf_maxBaseAmount b)),
                       cp_maxQuoteAmount = BN (configured (cf_maxQuoteAmount b))\<rparr>
                    in case claimPartnerTradingFee E params of
                         Inl e \<Rightarrow> (Inl e, [ClaimPartnerTradingFee params])
                       | Inr transaction \<Rightarrow>
                           (case getLatestBlockhash E of
                              Inl e \<Rightarrow>
                                (Inl e, [ClaimPartnerTradingFee params, GetLatestBlockhash])
                            | Inr blockhash \<Rightarrow>
                                (case serializeTransaction E transaction blockhash
                                        (configured (cf_payerAddress b)) of
                                   Inl e \<Rightarrow>
                                     (Inl e, [ClaimPartnerTradingFee params, GetLatestBlockhash])
                                 | Inr serializedTransaction \<Rightarrow>
                                     (Inr (respond 200
                                        (JObj [(''transaction'', JStr serializedTransaction)])),
                                      [ClaimPartnerTradingFee params,
                                       GetLatestBlockhash])))))))))"

definition admin_claim_fees_handler ::
  "'tx claim_fees_env \<Rightarrow> string \<Rightarrow> claim_fees_body option \<Rightarrow> response \<times> sdk_call list"
where
  "admin_claim_fees_handler E req_method req_body =
     (if req_method \<noteq> ''POST''
      then (respond 405 (JObj [(''error'', JStr ''Method not allowed'')]), [])
      else if falsy (cf_RPC_URL E)
      then (respond 500
              (JObj [(''error'', JStr ''Server configuration error''),
                     (''details'', JStr ''Missing required environment variable: RPC_URL'')]),
            [])
      else if falsy (ADMIN_ADDRESS E)
      then (respond 500
              (JObj [(''error'', JStr ''Server configuration error''),
                     (''details'',
                      JStr ''Missing required environment variable: ADMIN_ADDRESS'')]),
            [])
      else
        (case claimFeesTry E req_body of
           (Inr res, cs) \<Rightarrow> (res, cs)
         | (Inl e, cs) \<Rightarrow>
             (respond 500
                (JObj [(''error'', JStr ''Failed to create claim transaction''),
                       (''details'', JStr (errorMessage e))]),
              cs)))"

text \<open>Whether a response carries a transaction, and whether the SDK was asked for one.\<close>

definition returnsTransaction :: "response \<Rightarrow> bool" where
  "returnsTransaction res =
     (case body res of
        JObj members \<Rightarrow> ''transaction'' \<in> set (map fst members)
      | _ \<Rightarrow> False)"

fun isClaimCall :: "sdk_call \<Rightarrow> bool" where
  "isClaimCall (ClaimPartnerTradingFee ps) = True"
| "isClaimCall GetLatestBlockhash = False"

text \<open>An environment for concrete requests: everything is configured and answers.\<close>

definition demoClaimEnv :: "string claim_fees_env" where
  "demoClaimEnv =
     \<lparr>cf_RPC_URL = Some ''https://rpc.example'',
      ADMIN_ADDRESS = Some ''AdminKey'',
      newConnection = (\<lambda>url. None),
      newPublicKey = (\<lambda>key. None),
      claimPartnerTradingFee = (\<lambda>ps. Inr (cp_pool ps)),
      getLatestBlockhash = Inr ''hash'',
      serializeTransaction = (\<lambda>tx blockhash payer. Inr tx)\<rparr>"

definition demoClaimBody :: "string \<Rightarrow> claim_fees_body" where
  "demoClaimBody payer =
     \<lparr>cf_poolAddress = Some ''PoolKey'', cf_payerAddress = Some payer,
      cf_maxBaseAmount = Some ''0'', cf_maxQuoteAmount = Some ''7''\<rparr>"

section \<open>The balance route (pages/api/user/get-balance.ts)\<close>

record balance_body =
  address :: "string option"

datatype rpc_call = GetBalance string

record balance_env =
  bal_RPC_URL :: "string option"
  bal_newConnection :: "string \<Rightarrow> exn option"
  bal_newPublicKey :: "string \<Rightarrow> exn option"
  getBalance :: "string \<Rightarrow> exn + int"

definition LAMPORTS_PER_SOL :: int where
  "LAMPORTS_PER_SOL = 1000000000"

text \<open>
  The handler. The body is destructured before the \<^verbatim>\<open>try\<close> block, so a body that
  cannot be destructured (\<open>None\<close>) makes the handler itself throw: that is the \<open>Inl\<close> of
  its result. Otherwise it returns a response and the RPC calls made.
\<close>

definition get_balance_handler ::
  "balance_env \<Rightarrow> string \<Rightarrow> balance_body option \<Rightarrow> exn + response \<times> rpc_call list"
where
  "get_balance_handler E req_method req_body =
     (if req_method \<noteq> ''POST''
      then Inr (respond 405 (JObj [(''error'', JStr ''Method not allowed'')]), [])
      else
        (case req_body of
           None \<Rightarrow> Inl (Error ''Cannot destructure the request body'')
         | Some b \<Rightarrow>
             if falsy (address b)
             then Inr (respond 400 (JObj [(''error'', JStr ''Address is required'')]), [])
             else if falsy (bal_RPC_URL E)
             then Inr (respond 500 (JObj [(''error'', JStr ''Server configuration error'')]), [])
             else
               (case bal_newConnection E (configured (bal_RPC_URL E)) of
                  Some e \<Rightarrow>
                    Inr (respond 500
                           (JObj [(''error'', JStr ''Failed to fetch balance''),
                                  (''details'', JStr (errorMessage e))]), [])
                | None \<Rightarrow>
                    (case bal_newPublicKey E (configured (address b)) of
                       Some e \<Rightarrow>
                         Inr (respond 500
                                (JObj [(''error'', JStr ''Failed to fetch balance''),
                                       (''details'', JStr (errorMessage e))]), [])
                     | None \<Rightarrow>
                         (case getBalance E (configured (address b)) of
                            Inl e \<Rightarrow>
                              Inr (respond 500
                                     (JObj [(''error'', JStr ''Failed to fetch balance''),
                                            (''details'', JStr (errorMessage e))]),
                                   [GetBalance (configured (address b))])
                          | Inr balanceLamports \<Rightarrow>
                              Inr (respond 200
                                     (JObj [(''balance'',
                                             JQuotient balanceLamports LAMPORTS_PER_SOL)]),
                                   [GetBalance (configured (address b))]))))))"

definition demoBalanceEnv :: balance_env where
  "demoBalanceEnv =
     \<lparr>bal_RPC_URL = Some ''https://rpc.example'',
      bal_newConnection = (\<lambda>url. None),
      bal_newPublicKey = (\<lambda>key. None),
      getBalance = (\<lambda>key. Inr 2500000000)\<rparr>"

text \<open>A server environment whose pools query fails, a cache entry, and a browser whose stored string cannot be parsed and whose request fails.\<close>

definition demoPoolsEnv :: pools_env where
  "demoPoolsEnv =
     \<lparr>RPC_URL = Some ''https://rpc.example'', POOL_CONFIG_KEY = Some ''ConfigKey'',
      getPoolsByConfig = (\<lambda>url key. Inl (Error ''rpc unreachable'')),
      getAsset = (\<lambda>url mint. Inl NonError)\<rparr>"

definition demoCache :: pools_cache where
  "demoCache = \<lparr>cached_pools = [JStr ''pool-1''], cached_timestamp = 1000\<rparr>"

definition demoClientEnv :: client_env where
  "demoClientEnv =
     \<lparr>JSON_parse = (\<lambda>stored. Inl (Error ''Unexpected token'')),
      JSON_stringify = (\<lambda>entry. ''entry''),
      setItemThrows = False,
      fetchGetAll = Inl (Error ''Failed to fetch'')\<rparr>"

definition demoClientState :: client_state where
  "demoClientState =
     \<lparr>pools = [JStr ''pool-1''], loading = False, error = None, lastFetch = Some 1000\<rparr>"

definition demoStorage :: "string \<rightharpoonup> string" where
  "demoStorage = [CACHE_KEY \<mapsto> ''{pools'']"

section \<open>Fee totals: exact and order-independent\<close>

lemma foldl_add_sum_list:
  fixes g :: "'a \<Rightarrow> int"
  shows "foldl (\<lambda>sum f. sum + g f) a xs = a + sum_list (map g xs)"
  by (induction xs arbitrary: a) (simp_all add: add.assoc)

lemma sum_list_map_mset_cong:
  fixes g :: "'a \<Rightarrow> int"
  assumes "mset xs = mset ys"
  shows "sum_list (map g xs) = sum_list (map g ys)"
proof -
  from assms have "mset (map g xs) = mset (map g ys)"
    by simp
  then have "sum_mset (mset (map g xs)) = sum_mset (mset (map g ys))"
    by (rule arg_cong)
  then show ?thesis
    by (simp only: sum_mset_sum_list)
qed

lemma totals_as_sums:
  "totalPartnerQuoteFee fees = (\<Sum>f\<leftarrow>fees. BN (partnerQuoteFee f))"
  "totalPartnerBaseFee fees = (\<Sum>f\<leftarrow>fees. BN (partnerBaseFee f))"
  "totalCreatorQuoteFee fees = (\<Sum>f\<leftarrow>fees. BN (creatorQuoteFee f))"
  "totalCreatorBaseFee fees = (\<Sum>f\<leftarrow>fees. BN (creatorBaseFee f))"
  by (simp_all add: totalPartnerQuoteFee_def totalPartnerBaseFee_def
      totalCreatorQuoteFee_def totalCreatorBaseFee_def foldl_add_sum_list)

lemma totals_permuted:
  assumes "mset fees = mset fees'"
  shows "totalPartnerQuoteFee fees = totalPartnerQuoteFee fees'"
    and "totalPartnerBaseFee fees = totalPartnerBaseFee fees'"
    and "totalCreatorQuoteFee fees = totalCreatorQuoteFee fees'"
    and "totalCreatorBaseFee fees = totalCreatorBaseFee fees'"
  unfolding totals_as_sums
  by (rule sum_list_map_mset_cong [OF assms])+

lemma totals_beyond_2_53:
  "BN_toString (totalPartnerQuoteFee
      [feesOf p ''9007199254740993'', feesOf q ''1'']) = ''9007199254740994''"
  by (simp add: totalPartnerQuoteFee_def feesOf_def BN_def parseBase_def
      digitValue_def BN_toString_def)

text \<open>
  C4. The four totals are left folds of exact integer addition: each is zero on the
  empty list, each equals the mathematical sum of the parsed amounts, two lists that
  are permutations of one another have the same totals, and the sum of
  \<^verbatim>\<open>"9007199254740993"\<close> and \<^verbatim>\<open>"1"\<close> prints as \<^verbatim>\<open>"9007199254740994"\<close>.
\<close>

theorem fee_totals_exact_order_independent:
  "totalPartnerQuoteFee [] = 0 \<and> totalPartnerBaseFee [] = 0
   \<and> totalCreatorQuoteFee [] = 0 \<and> totalCreatorBaseFee [] = 0
   \<and> totalPartnerQuoteFee fees = (\<Sum>f\<leftarrow>fees. BN (partnerQuoteFee f))
   \<and> totalPartnerBaseFee fees = (\<Sum>f\<leftarrow>fees. BN (partnerBaseFee f))
   \<and> totalCreatorQuoteFee fees = (\<Sum>f\<leftarrow>fees. BN (creatorQuoteFee f))
   \<and> totalCreatorBaseFee fees = (\<Sum>f\<leftarrow>fees. BN (creatorBaseFee f))
   \<and> (mset fees = mset fees' \<longrightarrow>
        totalPartnerQuoteFee fees = totalPartnerQuoteFee fees'
        \<and> totalPartnerBaseFee fees = totalPartnerBaseFee fees'
        \<and> totalCreatorQuoteFee fees = totalCreatorQuoteFee fees'
        \<and> totalCreatorBaseFee fees = totalCreatorBaseFee fees')
   \<and> BN_toString (totalPartnerQuoteFee
         [feesOf p ''9007199254740993'', feesOf q ''1'']) = ''9007199254740994''"
proof (intro conjI impI)
  show "totalPartnerQuoteFee [] = 0" "totalPartnerBaseFee [] = 0"
    "totalCreatorQuoteFee [] = 0" "totalCreatorBaseFee [] = 0"
    by (simp_all add: totals_as_sums)
qed (fact totals_as_sums totals_beyond_2_53 | erule totals_permuted)+

theorem fee_totals_exact_order_independent_witness:
  "mset [feesOf ''A'' ''5'', feesOf ''B'' ''7''] = mset [feesOf ''B'' ''7'', feesOf ''A'' ''5'']
   \<and> totalPartnerQuoteFee [feesOf ''A'' ''5'', feesOf ''B'' ''7''] = 12
   \<and> totalPartnerQuoteFee [feesOf ''B'' ''7'', feesOf ''A'' ''5''] = 12"
proof -
  have m: "mset [feesOf ''A'' ''5'', feesOf ''B'' ''7'']
      = mset [feesOf ''B'' ''7'', feesOf ''A'' ''5'']"
    by (simp add: add.commute)
  have v: "totalPartnerQuoteFee [feesOf ''A'' ''5'', feesOf ''B'' ''7''] = 12"
    by (simp add: totalPartnerQuoteFee_def feesOf_def BN_def parseBase_def digitValue_def)
  have "totalPartnerQuoteFee [feesOf ''A'' ''5'', feesOf ''B'' ''7'']
      = totalPartnerQuoteFee [feesOf ''B'' ''7'', feesOf ''A'' ''5'']"
    by (rule fee_totals_exact_order_independent
        [THEN conjunct2, THEN conjunct2, THEN conjunct2, THEN conjunct2,
         THEN conjunct2, THEN conjunct2, THEN conjunct2, THEN conjunct2,
         THEN conjunct1, THEN mp, OF m, THEN conjunct1])
  with v have "totalPartnerQuoteFee [feesOf ''B'' ''7'', feesOf ''A'' ''5''] = 12"
    by (simp only:)
  with m v show ?thesis by (intro conjI)
qed

section \<open>The batched claim flow: counters, calls and notifications\<close>

lemma draftRequests_append:
  "draftRequests (xs @ ys) = draftRequests xs @ draftRequests ys"
  by (induction xs rule: draftRequests.induct) simp_all

lemma claimAttempt_draftRequests:
  "claimAttempt E payer f w = (r, cs, w') \<Longrightarrow> draftRequests cs = [claimRequest payer f]"
  by (auto simp: claimAttempt_def Let_def split: prod.splits sum.splits if_splits)

lemma claimLoop_counts:
  "claimLoop E payer fs b w = (b', w') \<Longrightarrow>
     successCount b' = successCount b
        + int (length (filter (\<lambda>r. \<not> isl r) (pipelineOutcomes E payer fs w)))
     \<and> failCount b' = failCount b
        + int (length (filter isl (pipelineOutcomes E payer fs w)))"
proof (induction fs arbitrary: b w)
  case Nil
  then show ?case by simp
next
  case (Cons f fs)
  obtain r cs w1 where att: "claimAttempt E payer f w = (r, cs, w1)"
    by (cases "claimAttempt E payer f w") auto
  show ?case
  proof (cases r)
    case (Inl e)
    with att Cons.prems have
      "claimLoop E payer fs (b\<lparr>failCount := failCount b + 1, calls := calls b @ cs\<rparr>) w1 = (b', w')"
      by simp
    from Cons.IH [OF this] att Inl show ?thesis by simp
  next
    case (Inr u)
    with att Cons.prems have
      "claimLoop E payer fs
         (b\<lparr>successCount := successCount b + 1,
            toasts := toasts b @ [ClaimedPoolSuccess (take 8 (poolAddress f))],
            calls := calls b @ cs\<rparr>) w1 = (b', w')"
      by simp
    from Cons.IH [OF this] att Inr show ?thesis by simp
  qed
qed

lemma pipelineOutcomes_length:
  "length (pipelineOutcomes E payer fs w) = length fs"
  by (induction fs arbitrary: w) (auto split: prod.splits)

lemma claimLoop_draftRequests:
  "claimLoop E payer fs b w = (b', w') \<Longrightarrow>
     draftRequests (calls b') = draftRequests (calls b) @ map (claimRequest payer) fs"
proof (induction fs arbitrary: b w)
  case Nil
  then show ?case by simp
next
  case (Cons f fs)
  obtain r cs w1 where att: "claimAttempt E payer f w = (r, cs, w1)"
    by (cases "claimAttempt E payer f w") auto
  have dr: "draftRequests cs = [claimRequest payer f]"
    by (rule claimAttempt_draftRequests [OF att])
  show ?case
  proof (cases r)
    case (Inl e)
    with att Cons.prems have
      "claimLoop E payer fs (b\<lparr>failCount := failCount b + 1, calls := calls b @ cs\<rparr>) w1 = (b', w')"
      by simp
    from Cons.IH [OF this] dr show ?thesis by (simp add: draftRequests_append)
  next
    case (Inr u)
    with att Cons.prems have
      "claimLoop E payer fs
         (b\<lparr>successCount := successCount b + 1,
            toasts := toasts b @ [ClaimedPoolSuccess (take 8 (poolAddress f))],
            calls := calls b @ cs\<rparr>) w1 = (b', w')"
      by simp
    from Cons.IH [OF this] dr show ?thesis by (simp add: draftRequests_append)
  qed
qed

lemma claimLoop_toasts:
  "claimLoop E payer fs b w = (b', w') \<Longrightarrow>
     \<exists>ts. toasts b' = toasts b @ ts \<and> (\<forall>t\<in>set ts. \<exists>a. t = ClaimedPoolSuccess a)"
proof (induction fs arbitrary: b w)
  case Nil
  then show ?case by simp
next
  case (Cons f fs)
  obtain r cs w1 where att: "claimAttempt E payer f w = (r, cs, w1)"
    by (cases "claimAttempt E payer f w") auto
  show ?case
  proof (cases r)
    case (Inl e)
    with att Cons.prems have
      "claimLoop E payer fs (b\<lparr>failCount := failCount b + 1, calls := calls b @ cs\<rparr>) w1 = (b', w')"
      by simp
    from Cons.IH [OF this] show ?thesis by simp
  next
    case (Inr u)
    with att Cons.prems have
      "claimLoop E payer fs
         (b\<lparr>successCount := successCount b + 1,
            toasts := toasts b @ [ClaimedPoolSuccess (take 8 (poolAddress f))],
            calls := calls b @ cs\<rparr>) w1 = (b', w')"
      by simp
    from Cons.IH [OF this] obtain ts where
      "toasts b' = (toasts b @ [ClaimedPoolSuccess (take 8 (poolAddress f))]) @ ts"
      "\<forall>t\<in>set ts. \<exists>a. t = ClaimedPoolSuccess a"
      by auto
    then show ?thesis
      by (intro exI [of _ "ClaimedPoolSuccess (take 8 (poolAddress f)) # ts"]) simp
  qed
qed

lemma claimAllFees_connected:
  assumes "publicKey wal = Some payer" and "canSign wal"
    and "poolsWithFees th fees \<noteq> []"
  shows "claimAllFees E wal th fees w =
     (case claimLoop E payer (poolsWithFees th fees)
             \<lparr>successCount = 0, failCount = 0,
              toasts = [ClaimingInfo (length (poolsWithFees th fees))],
              calls = []\<rparr> w of
        (b, w') \<Rightarrow>
          (b\<lparr>toasts := toasts b @ summaryToasts b, calls := calls b @ [RefreshCall]\<rparr>,
           fetchFees E w'))"
  using assms by (simp add: claimAllFees_def)

lemma claimAllFees_run:
  assumes "publicKey wal = Some payer" and "canSign wal"
    and "poolsWithFees th fees \<noteq> []"
  shows "\<exists>b0 w0.
      claimLoop E payer (poolsWithFees th fees)
        \<lparr>successCount = 0, failCount = 0,
         toasts = [ClaimingInfo (length (poolsWithFees th fees))], calls = []\<rparr> w = (b0, w0)
      \<and> claimAllFees E wal th fees w =
          (b0\<lparr>toasts := toasts b0 @ summaryToasts b0, calls := calls b0 @ [RefreshCall]\<rparr>,
           fetchFees E w0)"
  unfolding claimAllFees_connected [OF assms]
  by (simp split: prod.splits)

lemma demo_eligible: "poolsWithFees 0 demoFees = demoFees"
  by (simp add: poolsWithFees_def demoFees_def feesOf_def BN_def parseBase_def digitValue_def)

lemma demo_attempt:
  "claimAttempt demoCollaborators payer (feesOf pool quote) () =
     (if pool = ''B'' then Inl (Error ''Failed to send transaction'') else Inr (),
      [DraftCall (claimRequest payer (feesOf pool quote)), SignCall pool, SubmitCall pool], ())"
  by (simp add: claimAttempt_def demoCollaborators_def claimRequest_def feesOf_def)

lemma demo_outcomes:
  "pipelineOutcomes demoCollaborators ''admin'' demoFees ()
     = [Inr (), Inl (Error ''Failed to send transaction''), Inr ()]"
  by (simp add: demoFees_def demo_attempt)

lemma scenario_BN:
  "BN (partnerQuoteFee (feesOf ''A'' ''50000000'')) = 50000000"
  "BN (partnerQuoteFee (feesOf ''B'' ''200000000'')) = 200000000"
  by (simp_all add: feesOf_def BN_def parseBase_def digitValue_def)

lemma parseBase_nonneg:
  "0 \<le> a \<Longrightarrow> list_all (\<lambda>c. 48 \<le> (of_char c :: nat) \<and> (of_char c :: nat) \<le> 57) s \<Longrightarrow>
     0 \<le> foldl (\<lambda>r c. r * 10 + digitValue c) a s"
  by (induction s arbitrary: a) (simp_all add: digitValue_def)

lemma isDecimal_BN_nonneg: "isDecimal s \<Longrightarrow> 0 \<le> BN s"
proof -
  assume d: "isDecimal s"
  then have "of_char (hd s) \<noteq> (45 :: nat)"
    by (cases s) (auto simp: isDecimal_def)
  then have "hd s \<noteq> CHR ''-''"
    by auto
  with d show ?thesis
    by (simp add: BN_def parseBase_def isDecimal_def parseBase_nonneg)
qed

lemma claimAllFees_draftRequests:
  assumes "publicKey wal = Some payer" and "canSign wal"
  shows "draftRequests (calls (fst (claimAllFees E wal th fees w)))
     = map (claimRequest payer) (poolsWithFees th fees)"
proof (cases "poolsWithFees th fees = []")
  case True
  with assms show ?thesis by (simp add: claimAllFees_def)
next
  case False
  from claimAllFees_run [OF assms False, where E = E and w = w] obtain b0 w0 where
    loop: "claimLoop E payer (poolsWithFees th fees)
        \<lparr>successCount = 0, failCount = 0,
         toasts = [ClaimingInfo (length (poolsWithFees th fees))], calls = []\<rparr> w = (b0, w0)"
    and run: "claimAllFees E wal th fees w =
          (b0\<lparr>toasts := toasts b0 @ summaryToasts b0, calls := calls b0 @ [RefreshCall]\<rparr>,
           fetchFees E w0)"
    by blast
  from claimLoop_draftRequests [OF loop] run show ?thesis
    by (simp add: draftRequests_append)
qed

lemma summaryToasts_nonempty:
  "0 < successCount b + failCount b \<Longrightarrow> 0 \<le> successCount b \<Longrightarrow> 0 \<le> failCount b \<Longrightarrow>
     \<exists>t\<in>set (summaryToasts b). isSummary t"
  by (cases "0 < successCount b") (simp_all add: summaryToasts_def)

lemma summaryToasts_no_info: "NoFeesInfo \<notin> set (summaryToasts b)"
  by (simp add: summaryToasts_def)

lemma claimedPools_append:
  "claimedPools (xs @ ys) = claimedPools xs @ claimedPools ys"
  by (induction xs rule: claimedPools.induct) simp_all

lemma claimedPools_summaryToasts: "claimedPools (summaryToasts b) = []"
  by (simp add: summaryToasts_def)

lemma claimAttempt_submits:
  "claimAttempt E payer f w = (r, cs, w') \<Longrightarrow>
     length (filter isSubmit cs) \<le> 1 \<and> (\<not> isl r \<longrightarrow> length (filter isSubmit cs) = 1)"
  by (auto simp: claimAttempt_def Let_def split: prod.splits sum.splits if_splits)

lemma claimLoop_records:
  "claimLoop E payer fs b w = (b', w') \<Longrightarrow>
     claimedPools (toasts b') = claimedPools (toasts b)
        @ map (\<lambda>(f, r). take 8 (poolAddress f))
            (filter (\<lambda>(f, r). \<not> isl r) (zip fs (pipelineOutcomes E payer fs w)))
     \<and> int (length (filter isSubmit (calls b'))) - int (length (filter isSubmit (calls b)))
          \<le> int (length fs)
     \<and> successCount b' - successCount b
          \<le> int (length (filter isSubmit (calls b'))) - int (length (filter isSubmit (calls b)))"
proof (induction fs arbitrary: b w)
  case Nil
  then show ?case by simp
next
  case (Cons f fs)
  obtain r cs w1 where att: "claimAttempt E payer f w = (r, cs, w1)"
    by (cases "claimAttempt E payer f w") auto
  have sub: "length (filter isSubmit cs) \<le> 1"
    "\<not> isl r \<longrightarrow> length (filter isSubmit cs) = 1"
    using claimAttempt_submits [OF att] by simp_all
  show ?case
  proof (cases r)
    case (Inl e)
    with att Cons.prems have
      "claimLoop E payer fs (b\<lparr>failCount := failCount b + 1, calls := calls b @ cs\<rparr>) w1 = (b', w')"
      by simp
    from Cons.IH [OF this] att Inl sub show ?thesis by simp
  next
    case (Inr u)
    with att Cons.prems have
      "claimLoop E payer fs
         (b\<lparr>successCount := successCount b + 1,
            toasts := toasts b @ [ClaimedPoolSuccess (take 8 (poolAddress f))],
            calls := calls b @ cs\<rparr>) w1 = (b', w')"
      by simp
    from Cons.IH [OF this] att Inr sub show ?thesis by (simp add: claimedPools_append)
  qed
qed

text \<open>
  C1. A run of \<open>claimAllFees\<close> with a connected wallet over a non-empty eligible list
  requests a claim transaction for every eligible record, in order, whatever happened to
  the records before it: a failed claim does not end the loop. \<open>failCount\<close> is the
  number of records whose claim threw and \<open>successCount\<close> the number whose claim went
  through. In particular, when one of three eligible claims fails the run ends with
  \<open>successCount = 2\<close> and \<open>failCount = 1\<close>.
\<close>

theorem claimAllFees_continues_after_failure:
  assumes "publicKey wal = Some payer" and "canSign wal"
    and "poolsWithFees th fees \<noteq> []"
    and "claimAllFees E wal th fees w = (b, w')"
  shows "draftRequests (calls b) = map (claimRequest payer) (poolsWithFees th fees)
    \<and> length (pipelineOutcomes E payer (poolsWithFees th fees) w)
        = length (poolsWithFees th fees)
    \<and> failCount b
        = int (length (filter isl (pipelineOutcomes E payer (poolsWithFees th fees) w)))
    \<and> successCount b
        = int (length (filter (\<lambda>r. \<not> isl r)
            (pipelineOutcomes E payer (poolsWithFees th fees) w)))
    \<and> (length (poolsWithFees th fees) = 3
        \<and> length (filter isl (pipelineOutcomes E payer (poolsWithFees th fees) w)) = 1
        \<longrightarrow> successCount b = 2 \<and> failCount b = 1
          \<and> ClaimedSummarySuccess 2 \<in> set (toasts b)
          \<and> FailedSummaryError 1 \<in> set (toasts b))"
proof -
  from claimAllFees_run [OF assms(1-3), where E = E and w = w] assms(4) obtain b0 w0 where
    loop: "claimLoop E payer (poolsWithFees th fees)
        \<lparr>successCount = 0, failCount = 0,
         toasts = [ClaimingInfo (length (poolsWithFees th fees))], calls = []\<rparr> w = (b0, w0)"
    and b: "b = b0\<lparr>toasts := toasts b0 @ summaryToasts b0, calls := calls b0 @ [RefreshCall]\<rparr>"
    by auto
  let ?os = "pipelineOutcomes E payer (poolsWithFees th fees) w"
  have dr: "draftRequests (calls b) = map (claimRequest payer) (poolsWithFees th fees)"
    using claimLoop_draftRequests [OF loop] b by (simp add: draftRequests_append)
  have len: "length ?os = length (poolsWithFees th fees)"
    by (rule pipelineOutcomes_length)
  have cnt: "successCount b = int (length (filter (\<lambda>r. \<not> isl r) ?os))"
    "failCount b = int (length (filter isl ?os))"
    using claimLoop_counts [OF loop] b by simp_all
  have split: "length (filter (\<lambda>r. \<not> isl r) ?os) + length (filter isl ?os) = length ?os"
    using sum_length_filter_compl [of "\<lambda>r. \<not> isl r" ?os] by simp
  have shown: "set (summaryToasts b0) \<subseteq> set (toasts b)"
    and same: "successCount b0 = successCount b" "failCount b0 = failCount b"
    using b by simp_all
  have three: "successCount b = 2 \<and> failCount b = 1
      \<and> ClaimedSummarySuccess 2 \<in> set (toasts b) \<and> FailedSummaryError 1 \<in> set (toasts b)"
    if "length (poolsWithFees th fees) = 3" and "length (filter isl ?os) = 1"
  proof -
    from that cnt split len have c: "successCount b = 2" "failCount b = 1"
      by simp_all
    with same have "summaryToasts b0 = [ClaimedSummarySuccess 2, FailedSummaryError 1]"
      by (simp add: summaryToasts_def)
    with shown c show ?thesis by simp
  qed
  from dr len cnt three show ?thesis by blast
qed

theorem claimAllFees_continues_after_failure_witness:
  "publicKey demoWallet = Some ''admin'' \<and> canSign demoWallet
   \<and> length (poolsWithFees 0 demoFees) = 3
   \<and> length (filter isl (pipelineOutcomes demoCollaborators ''admin''
        (poolsWithFees 0 demoFees) ())) = 1
   \<and> successCount (fst (claimAllFees demoCollaborators demoWallet 0 demoFees ())) = 2
   \<and> failCount (fst (claimAllFees demoCollaborators demoWallet 0 demoFees ())) = 1"
proof -
  have h1: "publicKey demoWallet = Some ''admin''" and h2: "canSign demoWallet"
    by (simp_all add: demoWallet_def)
  have h3: "poolsWithFees 0 demoFees \<noteq> []"
    by (simp add: demo_eligible) (simp add: demoFees_def)
  have h4: "length (poolsWithFees 0 demoFees) = 3"
    by (simp add: demo_eligible) (simp add: demoFees_def)
  have h5: "length (filter isl (pipelineOutcomes demoCollaborators ''admin''
        (poolsWithFees 0 demoFees) ())) = 1"
    by (simp add: demo_eligible demo_outcomes)
  have run: "claimAllFees demoCollaborators demoWallet 0 demoFees ()
      = (fst (claimAllFees demoCollaborators demoWallet 0 demoFees ()),
         snd (claimAllFees demoCollaborators demoWallet 0 demoFees ()))"
    by (rule surjective_pairing)
  have "length (poolsWithFees 0 demoFees) = 3
      \<and> length (filter isl (pipelineOutcomes demoCollaborators ''admin''
          (poolsWithFees 0 demoFees) ())) = 1
      \<longrightarrow> successCount (fst (claimAllFees demoCollaborators demoWallet 0 demoFees ())) = 2
        \<and> failCount (fst (claimAllFees demoCollaborators demoWallet 0 demoFees ())) = 1
        \<and> ClaimedSummarySuccess 2
            \<in> set (toasts (fst (claimAllFees demoCollaborators demoWallet 0 demoFees ())))
        \<and> FailedSummaryError 1
            \<in> set (toasts (fst (claimAllFees demoCollaborators demoWallet 0 demoFees ())))"
    by (rule claimAllFees_continues_after_failure [OF h1 h2 h3 run,
        THEN conjunct2, THEN conjunct2, THEN conjunct2, THEN conjunct2])
  with h1 h2 h4 h5 show ?thesis by (simp only: simp_thms)
qed

text \<open>
  C10. After a run of \<open>claimAllFees\<close> with a connected wallet over a non-empty eligible
  list, \<open>successCount + failCount\<close> is the number of eligible records and neither
  counter is negative, because every eligible record is attempted exactly once and that
  attempt is counted exactly once: the requests for a claim transaction are those of the
  eligible records, one each and in order; no more transactions are submitted than there
  are records; \<open>successCount\<close> is the number of attempts that ran to their end, never
  more than the submissions made, and \<open>failCount\<close> the number that threw; and the pools
  named by the per-pool success notifications are those of the records whose attempt ran
  to its end, one each and in order.
\<close>

theorem claimAllFees_counts_every_record_once:
  assumes "publicKey wal = Some payer" and "canSign wal"
    and "poolsWithFees th fees \<noteq> []"
    and "claimAllFees E wal th fees w = (b, w')"
  shows "successCount b + failCount b = int (length (poolsWithFees th fees))
    \<and> 0 \<le> successCount b \<and> 0 \<le> failCount b
    \<and> draftRequests (calls b) = map (claimRequest payer) (poolsWithFees th fees)
    \<and> length (filter isSubmit (calls b)) \<le> length (poolsWithFees th fees)
    \<and> successCount b \<le> int (length (filter isSubmit (calls b)))
    \<and> length (pipelineOutcomes E payer (poolsWithFees th fees) w)
        = length (poolsWithFees th fees)
    \<and> successCount b
        = int (length (filter (\<lambda>r. \<not> isl r)
            (pipelineOutcomes E payer (poolsWithFees th fees) w)))
    \<and> failCount b
        = int (length (filter isl (pipelineOutcomes E payer (poolsWithFees th fees) w)))
    \<and> claimedPools (toasts b)
        = map (\<lambda>(f, r). take 8 (poolAddress f))
            (filter (\<lambda>(f, r). \<not> isl r)
              (zip (poolsWithFees th fees)
                 (pipelineOutcomes E payer (poolsWithFees th fees) w)))"
proof -
  from claimAllFees_run [OF assms(1-3), where E = E and w = w] assms(4) obtain b0 w0 where
    loop: "claimLoop E payer (poolsWithFees th fees)
        \<lparr>successCount = 0, failCount = 0,
         toasts = [ClaimingInfo (length (poolsWithFees th fees))], calls = []\<rparr> w = (b0, w0)"
    and b: "b = b0\<lparr>toasts := toasts b0 @ summaryToasts b0, calls := calls b0 @ [RefreshCall]\<rparr>"
    by auto
  let ?os = "pipelineOutcomes E payer (poolsWithFees th fees) w"
  have cnt: "successCount b = int (length (filter (\<lambda>r. \<not> isl r) ?os))"
    "failCount b = int (length (filter isl ?os))"
    using claimLoop_counts [OF loop] b by simp_all
  have split: "length (filter (\<lambda>r. \<not> isl r) ?os) + length (filter isl ?os) = length ?os"
    using sum_length_filter_compl [of "\<lambda>r. \<not> isl r" ?os] by simp
  have len: "length ?os = length (poolsWithFees th fees)"
    by (rule pipelineOutcomes_length)
  from cnt split len have total: "successCount b + failCount b = int (length (poolsWithFees th fees))"
    "0 \<le> successCount b" "0 \<le> failCount b"
    by simp_all
  have dr: "draftRequests (calls b) = map (claimRequest payer) (poolsWithFees th fees)"
    using claimLoop_draftRequests [OF loop] b by (simp add: draftRequests_append)
  have rec: "claimedPools (toasts b)
        = map (\<lambda>(f, r). take 8 (poolAddress f))
            (filter (\<lambda>(f, r). \<not> isl r) (zip (poolsWithFees th fees) ?os))"
    "length (filter isSubmit (calls b)) \<le> length (poolsWithFees th fees)"
    "successCount b \<le> int (length (filter isSubmit (calls b)))"
    using claimLoop_records [OF loop] b
    by (simp_all add: claimedPools_append claimedPools_summaryToasts)
  from total dr rec len cnt show ?thesis by (intro conjI)
qed

theorem claimAllFees_counts_every_record_once_witness:
  "publicKey demoWallet = Some ''admin'' \<and> canSign demoWallet
   \<and> poolsWithFees 6 demoFees \<noteq> []
   \<and> length (poolsWithFees 6 demoFees) = 2
   \<and> successCount (fst (claimAllFees demoCollaborators demoWallet 6 demoFees ()))
      + failCount (fst (claimAllFees demoCollaborators demoWallet 6 demoFees ())) = 2
   \<and> draftRequests (calls (fst (claimAllFees demoCollaborators demoWallet 6 demoFees ())))
      = [claimRequest ''admin'' (feesOf ''B'' ''7''), claimRequest ''admin'' (feesOf ''C'' ''9'')]"
proof -
  have h1: "publicKey demoWallet = Some ''admin''" and h2: "canSign demoWallet"
    by (simp_all add: demoWallet_def)
  have e: "poolsWithFees 6 demoFees = [feesOf ''B'' ''7'', feesOf ''C'' ''9'']"
    by (simp add: poolsWithFees_def demoFees_def feesOf_def BN_def parseBase_def
        digitValue_def)
  then have h3: "poolsWithFees 6 demoFees \<noteq> []" and len: "length (poolsWithFees 6 demoFees) = 2"
    by simp_all
  have run: "claimAllFees demoCollaborators demoWallet 6 demoFees ()
      = (fst (claimAllFees demoCollaborators demoWallet 6 demoFees ()),
         snd (claimAllFees demoCollaborators demoWallet 6 demoFees ()))"
    by (rule surjective_pairing)
  have "successCount (fst (claimAllFees demoCollaborators demoWallet 6 demoFees ()))
      + failCount (fst (claimAllFees demoCollaborators demoWallet 6 demoFees ()))
      = int (length (poolsWithFees 6 demoFees))"
    by (rule claimAllFees_counts_every_record_once [OF h1 h2 h3 run, THEN conjunct1])
  with len have s: "successCount (fst (claimAllFees demoCollaborators demoWallet 6 demoFees ()))
      + failCount (fst (claimAllFees demoCollaborators demoWallet 6 demoFees ())) = 2"
    by simp
  have "draftRequests (calls (fst (claimAllFees demoCollaborators demoWallet 6 demoFees ())))
      = map (claimRequest ''admin'') (poolsWithFees 6 demoFees)"
    by (rule claimAllFees_counts_every_record_once [OF h1 h2 h3 run,
        THEN conjunct2, THEN conjunct2, THEN conjunct2, THEN conjunct1])
  then have d: "draftRequests (calls (fst (claimAllFees demoCollaborators demoWallet 6 demoFees ())))
      = [claimRequest ''admin'' (feesOf ''B'' ''7''), claimRequest ''admin'' (feesOf ''C'' ''9'')]"
    by (simp only: e list.map)
  from h1 h2 h3 len s d show ?thesis by (intro conjI)
qed

section \<open>The batched claim flow: selection by threshold\<close>

text \<open>
  C5. A record is selected exactly when it is in the fee list and its partner quote fee,
  read as an integer, is at least the threshold in lamports; with a connected wallet the
  records a claim transaction is requested for are exactly those, in the list's order.
  At threshold 0 every record whose partner quote fee is an unsigned decimal numeral is
  selected, a record with all fees zero included.
\<close>

theorem poolsWithFees_iff_threshold:
  "(f \<in> set (poolsWithFees th fees) \<longleftrightarrow> f \<in> set fees \<and> th \<le> BN (partnerQuoteFee f))
   \<and> (publicKey wal = Some payer \<and> canSign wal \<longrightarrow>
        draftRequests (calls (fst (claimAllFees E wal th fees w)))
          = map (claimRequest payer) (filter (\<lambda>f. BN (partnerQuoteFee f) \<ge> th) fees))
   \<and> ((\<forall>f\<in>set fees. isDecimal (partnerQuoteFee f)) \<longrightarrow> poolsWithFees 0 fees = fees)
   \<and> poolsWithFees 0 [feesOf p ''0''] = [feesOf p ''0'']"
proof (intro conjI impI)
  show "f \<in> set (poolsWithFees th fees) \<longleftrightarrow> f \<in> set fees \<and> th \<le> BN (partnerQuoteFee f)"
    by (simp add: poolsWithFees_def)
  show "draftRequests (calls (fst (claimAllFees E wal th fees w)))
      = map (claimRequest payer) (filter (\<lambda>f. BN (partnerQuoteFee f) \<ge> th) fees)"
    if "publicKey wal = Some payer \<and> canSign wal"
    using that claimAllFees_draftRequests [of wal payer E th fees w]
    by (simp add: poolsWithFees_def)
  show "poolsWithFees 0 fees = fees" if "\<forall>f\<in>set fees. isDecimal (partnerQuoteFee f)"
    using that by (simp add: poolsWithFees_def isDecimal_BN_nonneg)
  show "poolsWithFees 0 [feesOf p ''0''] = [feesOf p ''0'']"
    by (simp add: poolsWithFees_def feesOf_def BN_def parseBase_def digitValue_def)
qed

theorem poolsWithFees_iff_threshold_witness:
  "feesOf ''B'' ''200000000'' \<in> set (poolsWithFees 100000000 scenarioFees)
   \<and> feesOf ''A'' ''50000000'' \<notin> set (poolsWithFees 100000000 scenarioFees)
   \<and> publicKey demoWallet = Some ''admin'' \<and> canSign demoWallet
   \<and> draftRequests (calls (fst (claimAllFees demoCollaborators demoWallet 100000000
          scenarioFees ())))
       = [claimRequest ''admin'' (feesOf ''B'' ''200000000'')]
   \<and> isDecimal (partnerQuoteFee (feesOf ''Z'' ''0''))
   \<and> poolsWithFees 0 [feesOf ''Z'' ''0''] = [feesOf ''Z'' ''0'']"
proof -
  have dec0: "isDecimal (partnerQuoteFee (feesOf ''Z'' ''0''))"
    by (simp add: feesOf_def isDecimal_def)
  have inB: "feesOf ''B'' ''200000000'' \<in> set scenarioFees
      \<and> 100000000 \<le> BN (partnerQuoteFee (feesOf ''B'' ''200000000''))"
    by (simp add: scenarioFees_def scenario_BN)
  have outA: "\<not> (feesOf ''A'' ''50000000'' \<in> set scenarioFees
      \<and> 100000000 \<le> BN (partnerQuoteFee (feesOf ''A'' ''50000000'')))"
    by (simp add: scenario_BN)
  have h1: "publicKey demoWallet = Some ''admin'' \<and> canSign demoWallet"
    by (simp add: demoWallet_def)
  from dec0 have dec: "\<forall>f\<in>set [feesOf ''Z'' ''0'']. isDecimal (partnerQuoteFee f)"
    by simp
  have flt: "filter (\<lambda>f. BN (partnerQuoteFee f) \<ge> 100000000) scenarioFees
      = [feesOf ''B'' ''200000000'']"
    by (simp add: scenarioFees_def scenario_BN)
  have a: "feesOf ''B'' ''200000000'' \<in> set (poolsWithFees 100000000 scenarioFees)"
    using poolsWithFees_iff_threshold
      [of "feesOf ''B'' ''200000000''" 100000000 scenarioFees, THEN conjunct1] inB
    by (simp only:)
  have b: "feesOf ''A'' ''50000000'' \<notin> set (poolsWithFees 100000000 scenarioFees)"
    using poolsWithFees_iff_threshold
      [of "feesOf ''A'' ''50000000''" 100000000 scenarioFees, THEN conjunct1] outA
    by (simp only: simp_thms)
  have c: "draftRequests (calls (fst (claimAllFees demoCollaborators demoWallet 100000000
          scenarioFees ())))
       = map (claimRequest ''admin'')
           (filter (\<lambda>f. BN (partnerQuoteFee f) \<ge> 100000000) scenarioFees)"
    by (rule poolsWithFees_iff_threshold
        [THEN conjunct2, THEN conjunct1, THEN mp, OF h1])
  have d: "poolsWithFees 0 [feesOf ''Z'' ''0''] = [feesOf ''Z'' ''0'']"
    by (rule poolsWithFees_iff_threshold
        [THEN conjunct2, THEN conjunct2, THEN conjunct1, THEN mp, OF dec])
  from c have c': "draftRequests (calls (fst (claimAllFees demoCollaborators demoWallet
        100000000 scenarioFees ()))) = [claimRequest ''admin'' (feesOf ''B'' ''200000000'')]"
    by (simp only: flt list.map)
  from a b h1 c' dec0 d show ?thesis by (intro conjI) (simp_all only: simp_thms)
qed

section \<open>The batched claim flow: nothing to claim\<close>

text \<open>
  C6. With a connected wallet and no eligible record, \<open>claimAllFees\<close> returns at once:
  both counters are zero, no call at all is made (no request, no signature, no submission,
  no refresh), the world is untouched and the only notification is \<open>NoFeesInfo\<close>. A run
  over a non-empty eligible list never shows \<open>NoFeesInfo\<close> and always shows a summary
  notification, so the two cases can be told apart.
\<close>

theorem claimAllFees_nothing_to_claim:
  assumes "publicKey wal = Some payer" and "canSign wal"
  shows "(poolsWithFees th fees = [] \<longrightarrow>
            claimAllFees E wal th fees w =
              (\<lparr>successCount = 0, failCount = 0, toasts = [NoFeesInfo], calls = []\<rparr>, w)
            \<and> filter isSignOrSubmit (calls (fst (claimAllFees E wal th fees w))) = [])
       \<and> (poolsWithFees th fees \<noteq> [] \<longrightarrow>
            NoFeesInfo \<notin> set (toasts (fst (claimAllFees E wal th fees w)))
            \<and> (\<exists>t\<in>set (toasts (fst (claimAllFees E wal th fees w))). isSummary t))"
proof (intro conjI impI)
  assume "poolsWithFees th fees = []"
  with assms have run: "claimAllFees E wal th fees w =
      (\<lparr>successCount = 0, failCount = 0, toasts = [NoFeesInfo], calls = []\<rparr>, w)"
    by (simp add: claimAllFees_def)
  then show "claimAllFees E wal th fees w =
      (\<lparr>successCount = 0, failCount = 0, toasts = [NoFeesInfo], calls = []\<rparr>, w)" .
  from run show "filter isSignOrSubmit (calls (fst (claimAllFees E wal th fees w))) = []"
    by simp
next
  assume ne: "poolsWithFees th fees \<noteq> []"
  from claimAllFees_run [OF assms ne, where E = E and w = w] obtain b0 w0 where
    loop: "claimLoop E payer (poolsWithFees th fees)
        \<lparr>successCount = 0, failCount = 0,
         toasts = [ClaimingInfo (length (poolsWithFees th fees))], calls = []\<rparr> w = (b0, w0)"
    and run: "claimAllFees E wal th fees w =
          (b0\<lparr>toasts := toasts b0 @ summaryToasts b0, calls := calls b0 @ [RefreshCall]\<rparr>,
           fetchFees E w0)"
    by blast
  from claimLoop_toasts [OF loop] obtain ts where
    ts: "toasts b0 = [ClaimingInfo (length (poolsWithFees th fees))] @ ts"
      "\<forall>t\<in>set ts. \<exists>a. t = ClaimedPoolSuccess a"
    by auto
  let ?os = "pipelineOutcomes E payer (poolsWithFees th fees) w"
  have cnt: "successCount b0 = int (length (filter (\<lambda>r. \<not> isl r) ?os))"
    "failCount b0 = int (length (filter isl ?os))"
    using claimLoop_counts [OF loop] by simp_all
  have split: "length (filter (\<lambda>r. \<not> isl r) ?os) + length (filter isl ?os) = length ?os"
    using sum_length_filter_compl [of "\<lambda>r. \<not> isl r" ?os] by simp
  have len: "length ?os = length (poolsWithFees th fees)"
    by (rule pipelineOutcomes_length)
  from ne have "0 < length (poolsWithFees th fees)"
    by simp
  with split len have "0 < length (filter (\<lambda>r. \<not> isl r) ?os) + length (filter isl ?os)"
    by arith
  then have "0 < int (length (filter (\<lambda>r. \<not> isl r) ?os)) + int (length (filter isl ?os))"
    by arith
  then have pos: "0 < successCount b0 + failCount b0"
    by (simp only: cnt)
  from cnt have nn: "0 \<le> successCount b0" "0 \<le> failCount b0"
    by simp_all
  show "NoFeesInfo \<notin> set (toasts (fst (claimAllFees E wal th fees w)))"
    using run ts by (auto simp: summaryToasts_no_info)
  show "\<exists>t\<in>set (toasts (fst (claimAllFees E wal th fees w))). isSummary t"
    using run summaryToasts_nonempty [OF pos nn] by auto
qed

theorem claimAllFees_nothing_to_claim_witness:
  "publicKey demoWallet = Some ''admin'' \<and> canSign demoWallet
   \<and> poolsWithFees 10 [feesOf ''A'' ''5''] = []
   \<and> claimAllFees demoCollaborators demoWallet 10 [feesOf ''A'' ''5''] ()
       = (\<lparr>successCount = 0, failCount = 0, toasts = [NoFeesInfo], calls = []\<rparr>, ())
   \<and> poolsWithFees 0 demoFees \<noteq> []
   \<and> NoFeesInfo \<notin> set (toasts (fst (claimAllFees demoCollaborators demoWallet 0 demoFees ())))"
proof -
  have h1: "publicKey demoWallet = Some ''admin''" and h2: "canSign demoWallet"
    by (simp_all add: demoWallet_def)
  have e: "poolsWithFees 10 [feesOf ''A'' ''5''] = []"
    by (simp add: poolsWithFees_def feesOf_def BN_def parseBase_def digitValue_def)
  have ne: "poolsWithFees 0 demoFees \<noteq> []"
    by (simp add: demo_eligible) (simp add: demoFees_def)
  have a: "claimAllFees demoCollaborators demoWallet 10 [feesOf ''A'' ''5''] ()
       = (\<lparr>successCount = 0, failCount = 0, toasts = [NoFeesInfo], calls = []\<rparr>, ())"
    by (rule claimAllFees_nothing_to_claim
        [OF h1 h2, THEN conjunct1, THEN mp, OF e, THEN conjunct1])
  have b: "NoFeesInfo \<notin> set (toasts (fst (claimAllFees demoCollaborators demoWallet 0
      demoFees ())))"
    by (rule claimAllFees_nothing_to_claim
        [OF h1 h2, THEN conjunct2, THEN mp, OF ne, THEN conjunct1])
  from h1 h2 e a ne b show ?thesis by (intro conjI)
qed

section \<open>The pool cache: reads within the lifetime\<close>

lemma get_all_handler_fresh:
  assumes "cachedData = Some c" and "now - cached_timestamp c < CACHE_DURATION_MS"
  shows "get_all_handler E ''GET'' now writeTime cachedData =
     (\<lparr>status = 200, headers = cacheHeaders,
       body = JObj [(''pools'', JArr (cached_pools c)),
                    (''count'', JNum (int (length (cached_pools c)))),
                    (''cached'', JBool True),
                    (''cacheAge'', JNum ((now - cached_timestamp c) div 1000))]\<rparr>,
      cachedData, [])"
  using assms by (simp add: get_all_handler_def cacheIsFresh_def)

lemma fetchPools_skip:
  assumes "lastFetch st = Some t" and "t \<noteq> 0" and "now - t < CACHE_DURATION_MS"
  shows "fetchPools E False now fetchTime st localStorage = (st, localStorage, [])"
  using assms by (simp add: fetchPools_def skipFetch_def)

text \<open>
  C2. A read while a cache entry younger than the 60,000 ms lifetime exists is answered
  from the cache without any call of the remote source. On the server a \<^verbatim>\<open>GET\<close> gets
  status 200 with the cached pools, their count, \<^verbatim>\<open>cached: true\<close> and the age in seconds;
  the cache is left as it was and the list of remote calls is empty. On the client
  \<open>fetchPools\<close> without \<^verbatim>\<open>forceRefresh\<close> returns with state and storage unchanged and no
  request made; there the entry is the time of the last fetch, a clock reading, which the
  code takes as present when it is not zero. That is so for every read made a minute or
  more after the epoch, which is the last part of the statement.
\<close>

theorem fresh_cache_served_without_remote_call:
  "(cachedData = Some c \<and> now - cached_timestamp c < 60000 \<longrightarrow>
      get_all_handler E ''GET'' now writeTime cachedData =
        (\<lparr>status = 200, headers = cacheHeaders,
          body = JObj [(''pools'', JArr (cached_pools c)),
                       (''count'', JNum (int (length (cached_pools c)))),
                       (''cached'', JBool True),
                       (''cacheAge'', JNum ((now - cached_timestamp c) div 1000))]\<rparr>,
         cachedData, []))
   \<and> (lastFetch st = Some t \<and> t \<noteq> 0 \<and> now' - t < 60000 \<longrightarrow>
        fetchPools E' False now' fetchTime st localStorage = (st, localStorage, []))
   \<and> (lastFetch st = Some t \<and> 60000 \<le> now' \<and> now' - t < 60000 \<longrightarrow>
        fetchPools E' False now' fetchTime st localStorage = (st, localStorage, []))"
proof (intro conjI impI)
  assume "cachedData = Some c \<and> now - cached_timestamp c < 60000"
  then show "get_all_handler E ''GET'' now writeTime cachedData =
        (\<lparr>status = 200, headers = cacheHeaders,
          body = JObj [(''pools'', JArr (cached_pools c)),
                       (''count'', JNum (int (length (cached_pools c)))),
                       (''cached'', JBool True),
                       (''cacheAge'', JNum ((now - cached_timestamp c) div 1000))]\<rparr>,
         cachedData, [])"
    by (intro get_all_handler_fresh) (simp_all add: CACHE_DURATION_MS_def)
next
  assume "lastFetch st = Some t \<and> t \<noteq> 0 \<and> now' - t < 60000"
  then show "fetchPools E' False now' fetchTime st localStorage = (st, localStorage, [])"
    by (intro fetchPools_skip [of st t]) (simp_all add: CACHE_DURATION_MS_def)
next
  assume "lastFetch st = Some t \<and> 60000 \<le> now' \<and> now' - t < 60000"
  then have "lastFetch st = Some t" and "t \<noteq> 0" and "now' - t < CACHE_DURATION_MS"
    by (simp_all add: CACHE_DURATION_MS_def)
  then show "fetchPools E' False now' fetchTime st localStorage = (st, localStorage, [])"
    by (rule fetchPools_skip)
qed

theorem fresh_cache_served_without_remote_call_witness:
  "31000 - cached_timestamp demoCache < 60000
   \<and> get_all_handler demoPoolsEnv ''GET'' 31000 31500 (Some demoCache) =
        (\<lparr>status = 200, headers = cacheHeaders,
          body = JObj [(''pools'', JArr (cached_pools demoCache)),
                       (''count'', JNum (int (length (cached_pools demoCache)))),
                       (''cached'', JBool True),
                       (''cacheAge'', JNum ((31000 - cached_timestamp demoCache) div 1000))]\<rparr>,
         Some demoCache, [])
   \<and> lastFetch demoClientState = Some 1000
   \<and> fetchPools demoClientEnv False 31000 31500 demoClientState demoStorage
        = (demoClientState, demoStorage, [])"
proof -
  have h1: "Some demoCache = Some demoCache \<and> 31000 - cached_timestamp demoCache < 60000"
    by (simp add: demoCache_def)
  have h2: "lastFetch demoClientState = Some 1000 \<and> (1000::int) \<noteq> 0 \<and> (31000::int) - 1000 < 60000"
    by (simp add: demoClientState_def)
  have a: "get_all_handler demoPoolsEnv ''GET'' 31000 31500 (Some demoCache) =
        (\<lparr>status = 200, headers = cacheHeaders,
          body = JObj [(''pools'', JArr (cached_pools demoCache)),
                       (''count'', JNum (int (length (cached_pools demoCache)))),
                       (''cached'', JBool True),
                       (''cacheAge'', JNum ((31000 - cached_timestamp demoCache) div 1000))]\<rparr>,
         Some demoCache, [])"
    by (rule fresh_cache_served_without_remote_call [THEN conjunct1, THEN mp, OF h1])
  have b: "fetchPools demoClientEnv False 31000 31500 demoClientState demoStorage
        = (demoClientState, demoStorage, [])"
    by (rule fresh_cache_served_without_remote_call
        [THEN conjunct2, THEN conjunct1, THEN mp, OF h2])
  from h1 h2 a b show ?thesis by (intro conjI) (elim conjE, assumption)+
qed

section \<open>The pool cache: failed fetches\<close>

lemma get_all_handler_error_keeps_cache:
  "status (fst (get_all_handler E m now writeTime cachedData)) \<noteq> 200 \<Longrightarrow>
     fst (snd (get_all_handler E m now writeTime cachedData)) = cachedData"
  by (auto simp: get_all_handler_def respond_def configurationError_def
      split: if_splits option.splits sum.splits)

lemma get_all_handler_fetch_failed:
  assumes "\<not> cacheIsFresh now cachedData"
    and "\<not> falsy (RPC_URL E)" and "\<not> falsy (POOL_CONFIG_KEY E)"
    and "getPoolsByConfig E (configured (RPC_URL E)) (configured (POOL_CONFIG_KEY E)) = Inl e"
  shows "get_all_handler E ''GET'' now writeTime cachedData =
     (respond 500 (JObj [(''error'', JStr ''Failed to fetch pools''),
                         (''details'', JStr (errorMessage e))]),
      cachedData, [GetPoolsByConfig (configured (POOL_CONFIG_KEY E))])"
  using assms by (simp add: get_all_handler_def)

lemma fetchPools_failed:
  assumes "\<not> skipFetch forceRefresh now (lastFetch st)"
    and "fetchGetAll E = Inl e \<or> (\<exists>r. fetchGetAll E = Inr r \<and> (\<not> ga_ok r \<or> isl (ga_json r)))"
  shows "\<exists>msg. fetchPools E forceRefresh now fetchTime st localStorage =
     (st\<lparr>loading := False, error := Some msg\<rparr>, localStorage, [FetchGetAll])"
  using assms
  by (auto simp: fetchPools_def fetchFailed_def split: sum.splits)

text \<open>
  C3. When the cache is stale or empty and the pools query throws, the server answers
  with status 500 and the error \<^verbatim>\<open>Failed to fetch pools\<close> carrying the message, and the
  cache it leaves is the cache it found. More generally every response of the handler
  other than 200 leaves the cache as it was. (A failed metadata lookup for one pool is
  caught inside the handler and is not a failure of the query.) On the client a request
  that throws, is not \<^verbatim>\<open>ok\<close> or has an unreadable body sets the error message and
  leaves the pools, the time of the last fetch and the storage as they were.
\<close>

theorem failed_fetch_leaves_cache_untouched:
  "(\<not> cacheIsFresh now cachedData \<and> \<not> falsy (RPC_URL E) \<and> \<not> falsy (POOL_CONFIG_KEY E)
      \<and> getPoolsByConfig E (configured (RPC_URL E)) (configured (POOL_CONFIG_KEY E)) = Inl e
     \<longrightarrow> get_all_handler E ''GET'' now writeTime cachedData =
          (respond 500 (JObj [(''error'', JStr ''Failed to fetch pools''),
                              (''details'', JStr (errorMessage e))]),
           cachedData, [GetPoolsByConfig (configured (POOL_CONFIG_KEY E))]))
   \<and> (status (fst (get_all_handler E m now writeTime cachedData)) \<noteq> 200
     \<longrightarrow> fst (snd (get_all_handler E m now writeTime cachedData)) = cachedData)
   \<and> (\<not> skipFetch forceRefresh now' (lastFetch st)
      \<and> (fetchGetAll E' = Inl e'
          \<or> (\<exists>r. fetchGetAll E' = Inr r \<and> (\<not> ga_ok r \<or> isl (ga_json r))))
     \<longrightarrow> (\<exists>msg. fetchPools E' forceRefresh now' fetchTime st localStorage =
            (st\<lparr>loading := False, error := Some msg\<rparr>, localStorage, [FetchGetAll])))"
  using get_all_handler_fetch_failed [of now cachedData E e writeTime]
    get_all_handler_error_keeps_cache [of E m now writeTime cachedData]
    fetchPools_failed [of forceRefresh now' st E' e' fetchTime localStorage]
  by blast

theorem failed_fetch_leaves_cache_untouched_witness:
  "\<not> cacheIsFresh 100000 (Some demoCache)
   \<and> getPoolsByConfig demoPoolsEnv (configured (RPC_URL demoPoolsEnv))
        (configured (POOL_CONFIG_KEY demoPoolsEnv)) = Inl (Error ''rpc unreachable'')
   \<and> get_all_handler demoPoolsEnv ''GET'' 100000 100500 (Some demoCache) =
        (respond 500 (JObj [(''error'', JStr ''Failed to fetch pools''),
                            (''details'', JStr (errorMessage (Error ''rpc unreachable'')))]),
         Some demoCache, [GetPoolsByConfig (configured (POOL_CONFIG_KEY demoPoolsEnv))])
   \<and> fetchGetAll demoClientEnv = Inl (Error ''Failed to fetch'')
   \<and> (\<exists>msg. fetchPools demoClientEnv True 31000 31500 demoClientState demoStorage =
          (demoClientState\<lparr>loading := False, error := Some msg\<rparr>, demoStorage, [FetchGetAll]))"
proof -
  have s: "\<not> cacheIsFresh 100000 (Some demoCache)"
    by (simp add: cacheIsFresh_def demoCache_def CACHE_DURATION_MS_def)
  have c: "\<not> falsy (RPC_URL demoPoolsEnv)" "\<not> falsy (POOL_CONFIG_KEY demoPoolsEnv)"
    by (simp_all add: demoPoolsEnv_def falsy_def)
  have g: "getPoolsByConfig demoPoolsEnv (configured (RPC_URL demoPoolsEnv))
        (configured (POOL_CONFIG_KEY demoPoolsEnv)) = Inl (Error ''rpc unreachable'')"
    by (simp add: demoPoolsEnv_def)
  have k: "\<not> skipFetch True 31000 (lastFetch demoClientState)"
    by (simp add: skipFetch_def)
  have f: "fetchGetAll demoClientEnv = Inl (Error ''Failed to fetch'')"
    by (simp add: demoClientEnv_def)
  have h1: "\<not> cacheIsFresh 100000 (Some demoCache) \<and> \<not> falsy (RPC_URL demoPoolsEnv)
      \<and> \<not> falsy (POOL_CONFIG_KEY demoPoolsEnv)
      \<and> getPoolsByConfig demoPoolsEnv (configured (RPC_URL demoPoolsEnv))
          (configured (POOL_CONFIG_KEY demoPoolsEnv)) = Inl (Error ''rpc unreachable'')"
    using s c g by (intro conjI)
  have h2: "\<not> skipFetch True 31000 (lastFetch demoClientState)
      \<and> (fetchGetAll demoClientEnv = Inl (Error ''Failed to fetch'')
          \<or> (\<exists>r. fetchGetAll demoClientEnv = Inr r \<and> (\<not> ga_ok r \<or> isl (ga_json r))))"
    using k f by (intro conjI disjI1)
  have a: "get_all_handler demoPoolsEnv ''GET'' 100000 100500 (Some demoCache) =
        (respond 500 (JObj [(''error'', JStr ''Failed to fetch pools''),
                            (''details'', JStr (errorMessage (Error ''rpc unreachable'')))]),
         Some demoCache, [GetPoolsByConfig (configured (POOL_CONFIG_KEY demoPoolsEnv))])"
    by (rule failed_fetch_leaves_cache_untouched [THEN conjunct1, THEN mp, OF h1])
  have b: "\<exists>msg. fetchPools demoClientEnv True 31000 31500 demoClientState demoStorage =
          (demoClientState\<lparr>loading := False, error := Some msg\<rparr>, demoStorage, [FetchGetAll])"
    by (rule failed_fetch_leaves_cache_untouched
        [THEN conjunct2, THEN conjunct2, THEN mp, OF h2])
  from s g a f b show ?thesis by (intro conjI)
qed

section \<open>The persisted cache: loading on mount\<close>

lemma loadCacheTry_parse_error:
  assumes "localStorage CACHE_KEY = Some cached" and "cached \<noteq> []"
    and "JSON_parse E cached = Inl e"
  shows "loadCacheTry E now localStorage st = Inl e"
  using assms by (simp add: loadCacheTry_def)

lemma loadCacheOnMount_parse_error:
  assumes "localStorage CACHE_KEY = Some cached" and "JSON_parse E cached = Inl e"
  shows "loadCacheOnMount E now localStorage st = st"
  using assms by (simp add: loadCacheOnMount_def loadCacheTry_def)

lemma loadCacheOnMount_error:
  "error (loadCacheOnMount E now localStorage st) = error st"
  by (simp add: loadCacheOnMount_def loadCacheTry_def split: option.splits sum.splits)

text \<open>
  C7. When the string stored under \<open>CACHE_KEY\<close> cannot be read back, the \<^verbatim>\<open>try\<close> block
  of the effect on mount throws and the effect leaves the state as it found it: from the
  initial state the pools stay empty, no time of a last fetch is set and no error is
  shown. Whatever is stored, the effect never changes the \<open>error\<close> of the state.
\<close>

theorem unreadable_stored_cache_is_a_miss:
  "(localStorage CACHE_KEY = Some cached \<and> JSON_parse E cached = Inl e \<longrightarrow>
      (cached \<noteq> [] \<longrightarrow> loadCacheTry E now localStorage st = Inl e)
      \<and> loadCacheOnMount E now localStorage st = st
      \<and> pools (loadCacheOnMount E now localStorage initialState) = []
      \<and> lastFetch (loadCacheOnMount E now localStorage initialState) = None
      \<and> error (loadCacheOnMount E now localStorage initialState) = None)
   \<and> error (loadCacheOnMount E now localStorage st) = error st"
proof (intro conjI impI)
  assume h: "localStorage CACHE_KEY = Some cached \<and> JSON_parse E cached = Inl e"
  then show "loadCacheTry E now localStorage st = Inl e" if "cached \<noteq> []"
    using that by (simp add: loadCacheTry_parse_error)
  from h show "loadCacheOnMount E now localStorage st = st"
    by (simp add: loadCacheOnMount_parse_error)
  from h have "loadCacheOnMount E now localStorage initialState = initialState"
    by (simp add: loadCacheOnMount_parse_error)
  then show "pools (loadCacheOnMount E now localStorage initialState) = []"
    "lastFetch (loadCacheOnMount E now localStorage initialState) = None"
    "error (loadCacheOnMount E now localStorage initialState) = None"
    by (simp_all add: initialState_def)
next
  show "error (loadCacheOnMount E now localStorage st) = error st"
    by (rule loadCacheOnMount_error)
qed

theorem unreadable_stored_cache_is_a_miss_witness:
  "demoStorage CACHE_KEY = Some ''{pools''
   \<and> JSON_parse demoClientEnv ''{pools'' = Inl (Error ''Unexpected token'')
   \<and> loadCacheTry demoClientEnv 31000 demoStorage initialState = Inl (Error ''Unexpected token'')
   \<and> loadCacheOnMount demoClientEnv 31000 demoStorage initialState = initialState
   \<and> pools (loadCacheOnMount demoClientEnv 31000 demoStorage initialState) = []
   \<and> error (loadCacheOnMount demoClientEnv 31000 demoStorage initialState) = None"
proof -
  have h: "demoStorage CACHE_KEY = Some ''{pools''
      \<and> JSON_parse demoClientEnv ''{pools'' = Inl (Error ''Unexpected token'')"
    by (simp add: demoStorage_def demoClientEnv_def)
  have ne: "''{pools'' \<noteq> []"
    by simp
  have r: "(''{pools'' \<noteq> [] \<longrightarrow> loadCacheTry demoClientEnv 31000 demoStorage initialState
        = Inl (Error ''Unexpected token''))
      \<and> loadCacheOnMount demoClientEnv 31000 demoStorage initialState = initialState
      \<and> pools (loadCacheOnMount demoClientEnv 31000 demoStorage initialState) = []
      \<and> lastFetch (loadCacheOnMount demoClientEnv 31000 demoStorage initialState) = None
      \<and> error (loadCacheOnMount demoClientEnv 31000 demoStorage initialState) = None"
    by (rule unreadable_stored_cache_is_a_miss
        [where localStorage = demoStorage and E = demoClientEnv and now = 31000
           and st = initialState,
         THEN conjunct1, THEN mp, OF h])
  from r ne have t: "loadCacheTry demoClientEnv 31000 demoStorage initialState
        = Inl (Error ''Unexpected token'')"
    by (elim conjE) (erule mp)
  from h r t show ?thesis by (intro conjI) (elim conjE, assumption)+
qed

section \<open>The admin claim route: only the admin may claim\<close>

lemma claimFeesTry_other_payer:
  assumes "cf_poolAddress b = Some pool" and "pool \<noteq> []"
    and "cf_payerAddress b = Some payer" and "payer \<noteq> []"
    and "cf_maxBaseAmount b \<noteq> None" and "cf_maxQuoteAmount b \<noteq> None"
    and "ADMIN_ADDRESS E = Some admin"
    and "newConnection E (configured (cf_RPC_URL E)) = None"
    and "newPublicKey E pool = None" and "newPublicKey E admin = None"
    and "newPublicKey E payer = None"
    and "payer \<noteq> admin"
  shows "claimFeesTry E (Some b) =
     (Inr (respond 403 (JObj [(''error'', JStr ''Unauthorized: Only admin can claim fees'')])),
      [])"
  using assms by (auto simp: claimFeesTry_def falsy_def configured_def)

lemma demo_admin_claim:
  "admin_claim_fees_handler demoClaimEnv ''POST'' (Some (demoClaimBody ''AdminKey'')) =
     (respond 200 (JObj [(''transaction'', JStr ''PoolKey'')]),
      [ClaimPartnerTradingFee
         \<lparr>cp_pool = ''PoolKey'', cp_feeClaimer = ''AdminKey'', cp_payer = ''AdminKey'',
          cp_maxBaseAmount = 0, cp_maxQuoteAmount = 7\<rparr>, GetLatestBlockhash])"
  by (simp add: admin_claim_fees_handler_def claimFeesTry_def demoClaimEnv_def
      demoClaimBody_def falsy_def configured_def BN_def parseBase_def digitValue_def)

text \<open>
  C8. A \<^verbatim>\<open>POST\<close> to the admin claim route, on a configured server (RPC endpoint and
  admin address set and well-formed), whose body has all four fields, with a pool address
  and a payer address that are well-formed public keys, and whose payer is not the admin
  address, is answered with status 403 and the error
  \<^verbatim>\<open>Unauthorized: Only admin can claim fees\<close>; the SDK is not asked for a claim
  transaction and the response carries none.
\<close>

theorem admin_claim_rejects_other_payer:
  assumes "\<not> falsy (cf_RPC_URL E)" and "ADMIN_ADDRESS E = Some admin" and "admin \<noteq> []"
    and "cf_poolAddress b = Some pool" and "pool \<noteq> []"
    and "cf_payerAddress b = Some payer" and "payer \<noteq> []"
    and "cf_maxBaseAmount b \<noteq> None" and "cf_maxQuoteAmount b \<noteq> None"
    and "newConnection E (configured (cf_RPC_URL E)) = None"
    and "newPublicKey E pool = None" and "newPublicKey E admin = None"
    and "newPublicKey E payer = None"
    and "payer \<noteq> admin"
  shows "admin_claim_fees_handler E ''POST'' (Some b) =
       (respond 403 (JObj [(''error'', JStr ''Unauthorized: Only admin can claim fees'')]), [])
     \<and> status (fst (admin_claim_fees_handler E ''POST'' (Some b))) = 403
     \<and> \<not> returnsTransaction (fst (admin_claim_fees_handler E ''POST'' (Some b)))
     \<and> filter isClaimCall (snd (admin_claim_fees_handler E ''POST'' (Some b))) = []"
proof -
  have inner: "claimFeesTry E (Some b) =
     (Inr (respond 403 (JObj [(''error'', JStr ''Unauthorized: Only admin can claim fees'')])),
      [])"
    using assms by (intro claimFeesTry_other_payer)
  have "\<not> falsy (ADMIN_ADDRESS E)"
    using assms(2,3) by (simp add: falsy_def)
  with assms(1) inner have run: "admin_claim_fees_handler E ''POST'' (Some b) =
       (respond 403 (JObj [(''error'', JStr ''Unauthorized: Only admin can claim fees'')]), [])"
    by (simp add: admin_claim_fees_handler_def)
  show ?thesis
    unfolding run by (simp add: respond_def returnsTransaction_def)
qed

theorem admin_claim_rejects_other_payer_witness:
  "\<not> falsy (cf_RPC_URL demoClaimEnv) \<and> ADMIN_ADDRESS demoClaimEnv = Some ''AdminKey''
   \<and> cf_payerAddress (demoClaimBody ''Mallory'') = Some ''Mallory''
   \<and> ''Mallory'' \<noteq> ''AdminKey''
   \<and> admin_claim_fees_handler demoClaimEnv ''POST'' (Some (demoClaimBody ''Mallory'')) =
       (respond 403 (JObj [(''error'', JStr ''Unauthorized: Only admin can claim fees'')]), [])
   \<and> \<not> returnsTransaction
        (fst (admin_claim_fees_handler demoClaimEnv ''POST'' (Some (demoClaimBody ''Mallory''))))"
proof -
  have h1: "\<not> falsy (cf_RPC_URL demoClaimEnv)"
    by (simp add: demoClaimEnv_def falsy_def)
  have h2: "ADMIN_ADDRESS demoClaimEnv = Some ''AdminKey''" and h3: "''AdminKey'' \<noteq> []"
    by (simp_all add: demoClaimEnv_def)
  have b1: "cf_poolAddress (demoClaimBody ''Mallory'') = Some ''PoolKey''"
    and b2: "''PoolKey'' \<noteq> []"
    and b3: "cf_payerAddress (demoClaimBody ''Mallory'') = Some ''Mallory''"
    and b4: "''Mallory'' \<noteq> []"
    and b5: "cf_maxBaseAmount (demoClaimBody ''Mallory'') \<noteq> None"
    and b6: "cf_maxQuoteAmount (demoClaimBody ''Mallory'') \<noteq> None"
    by (simp_all add: demoClaimBody_def)
  have k1: "newConnection demoClaimEnv (configured (cf_RPC_URL demoClaimEnv)) = None"
    and k2: "newPublicKey demoClaimEnv ''PoolKey'' = None"
    and k3: "newPublicKey demoClaimEnv ''AdminKey'' = None"
    and k4: "newPublicKey demoClaimEnv ''Mallory'' = None"
    by (simp_all add: demoClaimEnv_def)
  have d: "''Mallory'' \<noteq> ''AdminKey''"
    by simp
  have r: "admin_claim_fees_handler demoClaimEnv ''POST'' (Some (demoClaimBody ''Mallory'')) =
       (respond 403 (JObj [(''error'', JStr ''Unauthorized: Only admin can claim fees'')]), [])
     \<and> status (fst (admin_claim_fees_handler demoClaimEnv ''POST''
          (Some (demoClaimBody ''Mallory'')))) = 403
     \<and> \<not> returnsTransaction (fst (admin_claim_fees_handler demoClaimEnv ''POST''
          (Some (demoClaimBody ''Mallory''))))
     \<and> filter isClaimCall (snd (admin_claim_fees_handler demoClaimEnv ''POST''
          (Some (demoClaimBody ''Mallory'')))) = []"
    by (rule admin_claim_rejects_other_payer [OF h1 h2 h3 b1 b2 b3 b4 b5 b6 k1 k2 k3 k4 d])
  from h1 h2 b3 d r show ?thesis by (intro conjI) (elim conjE, assumption)+
qed

section \<open>The balance route: the address is required\<close>

lemma demo_balance:
  "get_balance_handler demoBalanceEnv ''POST'' (Some \<lparr>address = Some ''Alice''\<rparr>) =
     Inr (respond 200 (JObj [(''balance'', JQuotient 2500000000 1000000000)]),
          [GetBalance ''Alice''])"
  by (simp add: get_balance_handler_def demoBalanceEnv_def falsy_def configured_def
      LAMPORTS_PER_SOL_def)

text \<open>
  A \<^verbatim>\<open>POST\<close> to the balance route whose body is an object without the \<^verbatim>\<open>address\<close>
  field is answered with status 400 and \<^verbatim>\<open>{error: "Address is required"}\<close>, and no RPC
  call is made, whatever the configuration.
\<close>

lemma balance_requires_address:
  "address b = None \<longrightarrow>
     get_balance_handler E ''POST'' (Some b) =
       Inr (respond 400 (JObj [(''error'', JStr ''Address is required'')]), [])"
  by (simp add: get_balance_handler_def falsy_def)

lemma balance_requires_address_demo:
  "address \<lparr>address = None\<rparr> = None
   \<and> get_balance_handler demoBalanceEnv ''POST'' (Some \<lparr>address = None\<rparr>) =
       Inr (respond 400 (JObj [(''error'', JStr ''Address is required'')]), [])"
proof -
  have h: "address \<lparr>address = None\<rparr> = None"
    by simp
  have "get_balance_handler demoBalanceEnv ''POST'' (Some \<lparr>address = None\<rparr>) =
       Inr (respond 400 (JObj [(''error'', JStr ''Address is required'')]), [])"
    by (rule balance_requires_address [THEN mp, OF h])
  with h show ?thesis by (intro conjI)
qed

text \<open>
  C9. A body that cannot be destructured, such as the JSON value \<^verbatim>\<open>null\<close>, lacks the
  \<^verbatim>\<open>address\<close> field as well. For it the handler throws at
  \<^verbatim>\<open>const { address } = req.body\<close>, which stands before the \<^verbatim>\<open>try\<close> block: the
  handler sends no response of its own, and in particular not the 400 with
  \<^verbatim>\<open>{error: "Address is required"}\<close>.
\<close>

theorem balance_null_body_throws:
  "get_balance_handler E ''POST'' None = Inl (Error ''Cannot destructure the request body'')
   \<and> (\<forall>cs. get_balance_handler E ''POST'' None
          \<noteq> Inr (respond 400 (JObj [(''error'', JStr ''Address is required'')]), cs))"
  by (simp add: get_balance_handler_def)

end
